theory Spec2Isabelle
  imports Main
begin

section \<open>The snapshot-and-transfer pipeline of vault-raft-backup\<close>

text \<open>
  The program is one Go file. Two revisions of it are modelled: \<^verbatim>\<open>src/main.go\<close>
  (static token only) and the revision that adds \<^verbatim>\<open>VAULT_SKIP_VERIFY\<close>, the
  \<^verbatim>\<open>aws-iam\<close> login and the function \<^verbatim>\<open>vaultClientConfig\<close>. Names of the later
  revision that clash with \<^verbatim>\<open>src/main.go\<close> carry the suffix \<open>2\<close>.

  Everything the program does is a call into a collaborator (the Vault client, the local
  file system, the S3 uploader, the process itself). A collaborator's answer is not
  decided by this program, so it is a field of the record \<open>extern\<close>; what the program
  does with the answer is the model. Every call is appended to a trace, in order.
\<close>

subsection \<open>Data\<close>

type_synonym bytes = string

text \<open>\<^verbatim>\<open>type VaultConfig struct\<close> of \<^verbatim>\<open>src/main.go\<close>, and the later revision's with
  its fourth field \<^verbatim>\<open>insecure\<close>.\<close>

record VaultConfig =
  vaultAddr :: string
  token :: string
  snapshotPath :: string

record VaultConfig2 = VaultConfig +
  insecure :: bool

record AWSConfig =
  s3Bucket :: string
  s3Prefix :: string
  s3Region :: string

text \<open>\<^verbatim>\<open>s3manager.UploadOutput\<close>: the program reads its field \<^verbatim>\<open>Location\<close> only.\<close>

record UploadOutput =
  Location :: string

text \<open>
  Go error values, named by the failure kinds of the specification. Each stands for the
  error value of one site of the code:
  \<^item> \<open>ConnectionConfigError\<close>: the error of \<^verbatim>\<open>ConfigureTLS\<close>;
  \<^item> \<open>ClientInitError\<close>: the error of \<^verbatim>\<open>NewClient\<close>;
  \<^item> \<open>AuthMethodError\<close>: the three \<^verbatim>\<open>errors.New\<close> of the \<^verbatim>\<open>aws-iam\<close> branch;
  \<^item> \<open>InvalidCredentialError\<close>: \<^verbatim>\<open>errors.New("The Vault token is invalid")\<close>;
  \<^item> \<open>SnapshotIOError\<close>: the error of \<^verbatim>\<open>os.OpenFile\<close>;
  \<^item> \<open>SnapshotStreamError\<close>: the error of \<^verbatim>\<open>RaftSnapshot\<close>;
  \<^item> \<open>UploadOpenError\<close>: the error of \<^verbatim>\<open>os.Open\<close>;
  \<^item> \<open>UploadTransferError\<close>: the error of \<^verbatim>\<open>uploader.Upload\<close>;
  \<^item> \<open>ResourceCloseError\<close>: the error of \<^verbatim>\<open>(*os.File).Close\<close>, either reported by the
    operating system or Go's \<^verbatim>\<open>os.ErrClosed\<close> for a file that was closed before.
\<close>

datatype auth_failure = ProviderInit | LoginCall | NoAuthInfo

datatype close_cause = OsCloseFailure | FileAlreadyClosed

datatype error =
    ConnectionConfigError
  | ClientInitError
  | AuthMethodError auth_failure
  | InvalidCredentialError
  | SnapshotIOError
  | SnapshotStreamError
  | UploadOpenError
  | UploadTransferError
  | ResourceCloseError close_cause

text \<open>
  The Vault client handle: the address it was built for and the token it sends, if it
  has one. The TLS state of its transport is not part of the model; the program touches
  it through \<^verbatim>\<open>ConfigureTLS\<close> only.
\<close>

record client =
  address :: string
  clientToken :: "string option"

text \<open>An \<^verbatim>\<open>*os.File\<close> is an index into the list of handles the process has opened.\<close>

record handle =
  hname :: string
  hopen :: bool
  hoffset :: nat

datatype arg = Str string | Err error

datatype event =
    EvConfigureTLS bool
  | EvNewClient string
  | EvNewAWSAuth
  | EvLogin
  | EvSetToken string
  | EvOpenFile string
  | EvRaftSnapshot nat
  | EvClose nat "error option"
  | EvOpen string
  | EvNewSession string
  | EvUpload string string bytes
  | Println arg
  | Printf string "arg list"
  | Fatalln arg

record world =
  fs :: "string \<rightharpoonup> bytes"
  handles :: "handle list"
  trace :: "event list"

datatype login_answer = LoginErr | LoginNil | LoginOk string

text \<open>The collaborators' answers during one run of the process.\<close>

record extern =
  configureTLS_fails :: "bool \<Rightarrow> bool"
  newClient_fails :: "(string \<rightharpoonup> string) \<Rightarrow> string \<Rightarrow> bool"
  newAWSAuth_fails :: bool
  login_answer :: login_answer
  openFile_fails :: "string \<Rightarrow> bool"
  raft_stream :: "bytes \<times> bool"
  close_fails :: "nat \<Rightarrow> bool"
  open_fails :: "string \<Rightarrow> bool"
  newSession_fails :: "string \<Rightarrow> bool"
  upload_answer :: "string \<Rightarrow> string \<Rightarrow> bytes \<Rightarrow> string option"

text \<open>
  How a function call ends: it returns to its caller, the process exits inside it
  (\<^verbatim>\<open>log.Fatalln\<close> is \<^verbatim>\<open>os.Exit(1)\<close>, which runs no deferred call), or it panics
  (\<^verbatim>\<open>session.Must\<close>), which runs the deferred calls and then unwinds to the caller.
\<close>

datatype 'a outcome = Return 'a world | Exit nat world | Panic world

subsection \<open>The collaborators\<close>

definition emit :: "event \<Rightarrow> world \<Rightarrow> world" where
  "emit e w = w\<lparr>trace := trace w @ [e]\<rparr>"

definition start :: "(string \<rightharpoonup> bytes) \<Rightarrow> world" where
  "start files = \<lparr>fs = files, handles = [], trace = []\<rparr>"

fun is_network :: "event \<Rightarrow> bool" where
  "is_network EvLogin = True"
| "is_network (EvRaftSnapshot _) = True"
| "is_network (EvUpload _ _ _) = True"
| "is_network _ = False"

fun is_upload :: "event \<Rightarrow> bool" where
  "is_upload (EvUpload _ _ _) = True"
| "is_upload _ = False"

fun is_close :: "event \<Rightarrow> bool" where
  "is_close (EvClose _ _) = True"
| "is_close _ = False"

text \<open>\<^verbatim>\<open>os.Getenv\<close>: the value, or the empty string when the variable is unset.\<close>

definition os_Getenv :: "(string \<rightharpoonup> string) \<Rightarrow> string \<Rightarrow> string" where
  "os_Getenv env k = (case env k of None \<Rightarrow> [] | Some v \<Rightarrow> v)"

text \<open>\<^verbatim>\<open>strconv.ParseBool\<close>: twelve spellings are accepted, anything else is an error.\<close>

definition strconv_ParseBool :: "string \<Rightarrow> bool option" where
  "strconv_ParseBool str =
     (if str \<in> set [''1'', ''t'', ''T'', ''true'', ''TRUE'', ''True''] then Some True
      else if str \<in> set [''0'', ''f'', ''F'', ''false'', ''FALSE'', ''False''] then Some False
      else None)"

text \<open>
  \<^verbatim>\<open>filepath.Base\<close> with the separator \<^verbatim>\<open>/\<close>: the empty path gives \<^verbatim>\<open>.\<close>; trailing
  separators are removed; what follows the last separator is kept; a path of separators
  only gives \<^verbatim>\<open>/\<close>.
\<close>

definition stripTrailingSlashes :: "string \<Rightarrow> string" where
  "stripTrailingSlashes path = rev (dropWhile (\<lambda>c. c = CHR ''/'') (rev path))"

definition lastElement :: "string \<Rightarrow> string" where
  "lastElement path = rev (takeWhile (\<lambda>c. c \<noteq> CHR ''/'') (rev path))"

definition filepath_Base :: "string \<Rightarrow> string" where
  "filepath_Base path =
     (if path = [] then ''.''
      else let path1 = lastElement (stripTrailingSlashes path)
           in if path1 = [] then ''/'' else path1)"

definition fmt_Println :: "arg \<Rightarrow> world \<Rightarrow> world" where
  "fmt_Println a w = emit (Println a) w"

definition fmt_Printf :: "string \<Rightarrow> arg list \<Rightarrow> world \<Rightarrow> world" where
  "fmt_Printf f as w = emit (Printf f as) w"

text \<open>\<^verbatim>\<open>log.Fatalln\<close> writes the message and exits with status 1.\<close>

definition log_Fatalln :: "arg \<Rightarrow> world \<Rightarrow> 'a outcome" where
  "log_Fatalln a w = Exit 1 (emit (Fatalln a) w)"

definition ConfigureTLS :: "extern \<Rightarrow> bool \<Rightarrow> world \<Rightarrow> error option \<times> world" where
  "ConfigureTLS X ins w =
     (if configureTLS_fails X ins then Some ConnectionConfigError else None,
      emit (EvConfigureTLS ins) w)"

text \<open>
  \<^verbatim>\<open>api.NewClient(config)\<close> builds the client on \<^verbatim>\<open>api.DefaultConfig()\<close>, which reads the
  process environment (\<^verbatim>\<open>VAULT_SKIP_VERIFY\<close> for the TLS state of the transport and
  \<^verbatim>\<open>VAULT_TOKEN\<close> among others). So the call takes the environment besides the config's
  address: whether it fails is an answer that may depend on both, and the new client's
  token is \<^verbatim>\<open>VAULT_TOKEN\<close> when that variable is not empty.
\<close>

definition NewClient ::
  "extern \<Rightarrow> (string \<rightharpoonup> string) \<Rightarrow> string \<Rightarrow> world \<Rightarrow> (error + client) \<times> world" where
  "NewClient X env addr w =
     (if newClient_fails X env addr then Inl ClientInitError
      else Inr \<lparr>address = addr,
                clientToken = (if os_Getenv env ''VAULT_TOKEN'' = [] then None
                               else Some (os_Getenv env ''VAULT_TOKEN''))\<rparr>,
      emit (EvNewClient addr) w)"

definition NewAWSAuth :: "extern \<Rightarrow> world \<Rightarrow> bool \<times> world" where
  "NewAWSAuth X w = (\<not> newAWSAuth_fails X, emit EvNewAWSAuth w)"

text \<open>\<^verbatim>\<open>client.Auth().Login\<close>: a successful login stores the session's token in the client.\<close>

definition Login :: "extern \<Rightarrow> client \<Rightarrow> world \<Rightarrow> (login_answer \<times> client) \<times> world" where
  "Login X c w =
     ((login_answer X,
       (case login_answer X of LoginOk t \<Rightarrow> c\<lparr>clientToken := Some t\<rparr> | _ \<Rightarrow> c)),
      emit EvLogin w)"

definition SetToken :: "string \<Rightarrow> client \<Rightarrow> world \<Rightarrow> client \<times> world" where
  "SetToken t c w = (c\<lparr>clientToken := Some t\<rparr>, emit (EvSetToken t) w)"

text \<open>
  \<^verbatim>\<open>os.OpenFile(path, O_CREATE|O_WRONLY|O_TRUNC, 0o644)\<close>: on success the file exists
  with length zero, and a new open handle at offset zero is returned.
\<close>

definition os_OpenFile :: "extern \<Rightarrow> string \<Rightarrow> world \<Rightarrow> (error + nat) \<times> world" where
  "os_OpenFile X path w =
     (let w1 = emit (EvOpenFile path) w in
      if openFile_fails X path then (Inl SnapshotIOError, w1)
      else (Inr (length (handles w1)),
            w1\<lparr>fs := (fs w1)(path \<mapsto> []),
               handles := handles w1 @ [\<lparr>hname = path, hopen = True, hoffset = 0\<rparr>]\<rparr>))"

text \<open>\<^verbatim>\<open>os.Open(path)\<close>: the file must exist; its content is left as it is.\<close>

definition os_Open :: "extern \<Rightarrow> string \<Rightarrow> world \<Rightarrow> (error + nat) \<times> world" where
  "os_Open X path w =
     (let w1 = emit (EvOpen path) w in
      if fs w1 path = None \<or> open_fails X path then (Inl UploadOpenError, w1)
      else (Inr (length (handles w1)),
            w1\<lparr>handles := handles w1 @ [\<lparr>hname = path, hopen = True, hoffset = 0\<rparr>]\<rparr>))"

text \<open>\<^verbatim>\<open>(*os.File).Name\<close>: the name the file was opened with, also after a close.\<close>

definition file_Name :: "nat \<Rightarrow> world \<Rightarrow> string" where
  "file_Name f w = (if f < length (handles w) then hname (handles w ! f) else [])"

definition is_open :: "nat \<Rightarrow> world \<Rightarrow> bool" where
  "is_open f w = (f < length (handles w) \<and> hopen (handles w ! f))"

text \<open>
  \<^verbatim>\<open>(*os.File).Close\<close>. An open file is closed whatever the operating system answers,
  and that answer is the result. Go documents: "Close will return an error if it has
  already been called"; that error is \<^verbatim>\<open>os.ErrClosed\<close>.
\<close>

definition file_Close :: "extern \<Rightarrow> nat \<Rightarrow> world \<Rightarrow> error option \<times> world" where
  "file_Close X f w =
     (if is_open f w then
        (let r = (if close_fails X f then Some (ResourceCloseError OsCloseFailure) else None)
         in (r, emit (EvClose f r) (w\<lparr>handles := (handles w)[f := (handles w ! f)\<lparr>hopen := False\<rparr>]\<rparr>)))
      else (Some (ResourceCloseError FileAlreadyClosed),
            emit (EvClose f (Some (ResourceCloseError FileAlreadyClosed))) w))"

text \<open>A write through a handle puts the bytes at the handle's offset and advances it.\<close>

definition write_at :: "nat \<Rightarrow> bytes \<Rightarrow> bytes \<Rightarrow> bytes" where
  "write_at off old new =
     take off old @ replicate (off - length old) (CHR 0x00) @ new @ drop (off + length new) old"

definition content_of :: "world \<Rightarrow> string \<Rightarrow> bytes" where
  "content_of w path = (case fs w path of None \<Rightarrow> [] | Some c \<Rightarrow> c)"

definition file_Write :: "nat \<Rightarrow> bytes \<Rightarrow> world \<Rightarrow> bool \<times> world" where
  "file_Write f data w =
     (if is_open f w then
        (let h = handles w ! f;
             old = content_of w (hname h)
         in (True, w\<lparr>fs := (fs w)(hname h \<mapsto> write_at (hoffset h) old data),
                     handles := (handles w)[f := h\<lparr>hoffset := hoffset h + length data\<rparr>]\<rparr>))
      else (False, w))"

text \<open>
  \<^verbatim>\<open>client.Sys().RaftSnapshot(sink)\<close>: the cluster streams \<open>fst (raft_stream X)\<close> into the
  sink; the call fails when the cluster says so (\<open>snd (raft_stream X)\<close>) or the sink
  refuses the write.
\<close>

definition RaftSnapshot :: "extern \<Rightarrow> client \<Rightarrow> nat \<Rightarrow> world \<Rightarrow> error option \<times> world" where
  "RaftSnapshot X c sink w =
     (case file_Write sink (fst (raft_stream X)) (emit (EvRaftSnapshot sink) w) of
        (written, w1) \<Rightarrow>
          (if snd (raft_stream X) \<or> \<not> written then Some SnapshotStreamError else None, w1))"

definition NewSession :: "extern \<Rightarrow> string \<Rightarrow> world \<Rightarrow> bool \<times> world" where
  "NewSession X region w = (\<not> newSession_fails X region, emit (EvNewSession region) w)"

text \<open>\<^verbatim>\<open>uploader.Upload\<close>: one put of the whole content read through the body's handle.\<close>

definition file_content :: "nat \<Rightarrow> world \<Rightarrow> bytes" where
  "file_content f w =
     (if is_open f w then content_of w (hname (handles w ! f)) else [])"

definition Upload :: "extern \<Rightarrow> string \<Rightarrow> string \<Rightarrow> nat \<Rightarrow> world \<Rightarrow> (error + UploadOutput) \<times> world" where
  "Upload X bucket key body w =
     (let content = file_content body w in
      (if \<not> is_open body w then Inl UploadTransferError
       else (case upload_answer X bucket key content of
               None \<Rightarrow> Inl UploadTransferError
             | Some loc \<Rightarrow> Inr \<lparr>Location = loc\<rparr>),
       emit (EvUpload bucket key content) w))"

text \<open>
  A function with a deferred call: the deferred call runs when the function returns
  (\<open>returning\<close>) or panics (\<open>panicking\<close>); when the deferred call exits the process, the
  function never hands its result to the caller.
\<close>

definition returning :: "'a \<Rightarrow> unit outcome \<Rightarrow> 'a outcome" where
  "returning r d = (case d of Return _ w \<Rightarrow> Return r w | Exit n w \<Rightarrow> Exit n w | Panic w \<Rightarrow> Panic w)"

definition panicking :: "unit outcome \<Rightarrow> 'a outcome" where
  "panicking d = (case d of Return _ w \<Rightarrow> Panic w | Exit n w \<Rightarrow> Exit n w | Panic w \<Rightarrow> Panic w)"

subsection \<open>The program\<close>

text \<open>\<^verbatim>\<open>snapshotFileClose\<close>, the same in both revisions.\<close>

definition snapshotFileClose :: "extern \<Rightarrow> nat \<Rightarrow> world \<Rightarrow> unit outcome" where
  "snapshotFileClose X snapshotFile w =
     (case file_Close X snapshotFile w of
        (Some err, w1) \<Rightarrow>
          log_Fatalln (Err err) (fmt_Println (Str ''Vault raft snapshot file failed to close'') w1)
      | (None, w1) \<Rightarrow> Return () w1)"

text \<open>
  \<^verbatim>\<open>snapshotS3Upload\<close>. The two revisions differ in the format string of the message
  for a file that cannot be opened, and in nothing else; \<open>snapshotS3Upload_fmt\<close> is the
  function's body with that string as \<open>msg\<close>.
\<close>

definition snapshotS3Upload_fmt ::
  "string \<Rightarrow> extern \<Rightarrow> AWSConfig \<Rightarrow> string \<Rightarrow> world \<Rightarrow> (error + UploadOutput) outcome" where
  "snapshotS3Upload_fmt msg X config snapshotPath' w =
     (case os_Open X snapshotPath' w of
        (Inl err, w1) \<Rightarrow> Return (Inl err) (fmt_Printf msg [Str snapshotPath', Err err] w1)
      | (Inr snapshotFile, w1) \<Rightarrow>
          (case NewSession X (s3Region config) w1 of
             (False, w2) \<Rightarrow> panicking (snapshotFileClose X snapshotFile w2)
           | (True, w2) \<Rightarrow>
               (let snapshotPathBase = filepath_Base snapshotPath' in
                case Upload X (s3Bucket config) (s3Prefix config @ ''-'' @ snapshotPathBase)
                       snapshotFile w2 of
                  (Inl err, w3) \<Rightarrow>
                    (let w4 = fmt_Println
                                (Str (''Vault backup failed to upload to S3 bucket '' @ s3Bucket config)) w3;
                         w5 = fmt_Println (Err err) w4
                     in returning (Inl err) (snapshotFileClose X snapshotFile w5))
                | (Inr uploadResult, w3) \<Rightarrow>
                    returning (Inr uploadResult) (snapshotFileClose X snapshotFile w3))))"

definition snapshotS3Upload ::
  "extern \<Rightarrow> AWSConfig \<Rightarrow> string \<Rightarrow> world \<Rightarrow> (error + UploadOutput) outcome" where
  "snapshotS3Upload = snapshotS3Upload_fmt ''Failed to open snapshot file %q, %v''"

definition snapshotS3Upload2 ::
  "extern \<Rightarrow> AWSConfig \<Rightarrow> string \<Rightarrow> world \<Rightarrow> (error + UploadOutput) outcome" where
  "snapshotS3Upload2 = snapshotS3Upload_fmt ''Failed to open snapshot file %q: %v''"

text \<open>\<^verbatim>\<open>vaultRaftSnapshot(config *VaultConfig)\<close> of \<^verbatim>\<open>src/main.go\<close>. \<open>env\<close> is the process
  environment, which the client library reads.\<close>

definition vaultRaftSnapshot ::
  "extern \<Rightarrow> (string \<rightharpoonup> string) \<Rightarrow> VaultConfig \<Rightarrow> world \<Rightarrow> (error + nat) outcome" where
  "vaultRaftSnapshot X env config w =
     (case NewClient X env (vaultAddr config) w of
        (Inl err, w1) \<Rightarrow>
          (let w2 = fmt_Println (Str ''Vault client failed to initialize'') w1;
               w3 = fmt_Println (Err err) w2
           in Return (Inl err) w3)
      | (Inr client0, w1) \<Rightarrow>
          if length (token config) \<noteq> 26 then Return (Inl InvalidCredentialError) w1
          else
            (case SetToken (token config) client0 w1 of
               (client, w2) \<Rightarrow>
                 (case os_OpenFile X (snapshotPath config) w2 of
                    (Inl err, w3) \<Rightarrow>
                      (let w4 = fmt_Println
                                  (Str (''snapshot file at '' @ snapshotPath config @
                                        '' could not be created'')) w3;
                           w5 = fmt_Println (Err err) w4
                       in Return (Inl err) w5)
                  | (Inr snapshotFile, w3) \<Rightarrow>
                      (case RaftSnapshot X client snapshotFile w3 of
                         (Some err, w4) \<Rightarrow>
                           (let w5 = snd (file_Close X snapshotFile w4);
                                w6 = fmt_Println (Str ''Vault Raft snapshot invocation failed'') w5;
                                w7 = fmt_Println (Err err) w6
                            in returning (Inl err) (snapshotFileClose X snapshotFile w7))
                       | (None, w4) \<Rightarrow>
                           returning (Inr snapshotFile) (snapshotFileClose X snapshotFile w4)))))"

text \<open>\<^verbatim>\<open>main\<close> of \<^verbatim>\<open>src/main.go\<close>: the exit status and the final state of the world. A
  panic that reaches \<^verbatim>\<open>main\<close> ends the process with status 2.\<close>

definition main :: "extern \<Rightarrow> (string \<rightharpoonup> string) \<Rightarrow> world \<Rightarrow> nat \<times> world" where
  "main X env w =
     (let vaultConfig = \<lparr>vaultAddr = os_Getenv env ''VAULT_ADDR'',
                         token = os_Getenv env ''VAULT_TOKEN'',
                         snapshotPath = os_Getenv env ''VAULT_SNAPSHOT_PATH''\<rparr>;
          awsConfig = \<lparr>s3Bucket = os_Getenv env ''S3_BUCKET'',
                       s3Prefix = os_Getenv env ''S3_PREFIX'',
                       s3Region = os_Getenv env ''AWS_REGION''\<rparr>
      in case vaultRaftSnapshot X env vaultConfig w of
           Exit n w1 \<Rightarrow> (n, w1)
         | Panic w1 \<Rightarrow> (2, w1)
         | Return (Inl err) w1 \<Rightarrow> (1, emit (Fatalln (Str ''Vault Raft Snapshot failed'')) w1)
         | Return (Inr snapshotFile) w1 \<Rightarrow>
             (case snapshotS3Upload X awsConfig (file_Name snapshotFile w1) w1 of
                Exit n w2 \<Rightarrow> (n, w2)
              | Panic w2 \<Rightarrow> (2, w2)
              | Return (Inl err) w2 \<Rightarrow> (1, emit (Fatalln (Str ''S3 upload failed'')) w2)
              | Return (Inr uploadResult) w2 \<Rightarrow>
                  (0, fmt_Printf ''Vault Raft snapshot uploaded to, %s\<newline>''
                        [Str (Location uploadResult)] w2)))"

text \<open>\<^verbatim>\<open>vaultClientConfig\<close> of the later revision; \<open>env\<close> as above.\<close>

definition vaultClientConfig ::
  "extern \<Rightarrow> (string \<rightharpoonup> string) \<Rightarrow> VaultConfig2 \<Rightarrow> world \<Rightarrow> (error + client) \<times> world" where
  "vaultClientConfig X env config w =
     (case ConfigureTLS X (insecure config) w of
        (Some err, w1) \<Rightarrow>
          (let w2 = fmt_Println (Str ''Vault TLS configuration failed to initialize'') w1;
               w3 = fmt_Println (Err err) w2
           in (Inl err, w3))
      | (None, w1) \<Rightarrow>
          (case NewClient X env (vaultAddr config) w1 of
             (Inl err, w2) \<Rightarrow>
               (let w3 = fmt_Println (Str ''Vault client failed to initialize'') w2;
                    w4 = fmt_Println (Err err) w3
                in (Inl err, w4))
           | (Inr client, w2) \<Rightarrow>
               if token config = ''aws-iam'' then
                 (case NewAWSAuth X w2 of
                    (False, w3) \<Rightarrow> (Inl (AuthMethodError ProviderInit), w3)
                  | (True, w3) \<Rightarrow>
                      (case Login X client w3 of
                         ((LoginErr, _), w4) \<Rightarrow> (Inl (AuthMethodError LoginCall), w4)
                       | ((LoginNil, _), w4) \<Rightarrow> (Inl (AuthMethodError NoAuthInfo), w4)
                       | ((LoginOk _, client1), w4) \<Rightarrow> (Inr client1, w4)))
               else if length (token config) \<noteq> 26 then (Inl InvalidCredentialError, w2)
               else (case SetToken (token config) client w2 of
                       (client1, w3) \<Rightarrow> (Inr client1, w3))))"

text \<open>\<^verbatim>\<open>vaultRaftSnapshot(client *vault.Client, snapshotPath string)\<close> of the later
  revision.\<close>

definition vaultRaftSnapshot2 :: "extern \<Rightarrow> client \<Rightarrow> string \<Rightarrow> world \<Rightarrow> (error + nat) outcome" where
  "vaultRaftSnapshot2 X client snapshotPath' w =
     (case os_OpenFile X snapshotPath' w of
        (Inl err, w1) \<Rightarrow>
          (let w2 = fmt_Println
                      (Str (''snapshot file at '' @ snapshotPath' @ '' could not be created'')) w1;
               w3 = fmt_Println (Err err) w2
           in Return (Inl err) w3)
      | (Inr snapshotFile, w1) \<Rightarrow>
          (case RaftSnapshot X client snapshotFile w1 of
             (Some err, w2) \<Rightarrow>
               (let w3 = snd (file_Close X snapshotFile w2);
                    w4 = fmt_Println (Str ''Vault Raft snapshot invocation failed'') w3;
                    w5 = fmt_Println (Err err) w4
                in returning (Inl err) (snapshotFileClose X snapshotFile w5))
           | (None, w2) \<Rightarrow>
               returning (Inr snapshotFile) (snapshotFileClose X snapshotFile w2)))"

text \<open>\<^verbatim>\<open>main\<close> of the later revision.\<close>

definition main2 :: "extern \<Rightarrow> (string \<rightharpoonup> string) \<Rightarrow> world \<Rightarrow> nat \<times> world" where
  "main2 X env w =
     (case strconv_ParseBool (os_Getenv env ''VAULT_SKIP_VERIFY'') of
        None \<Rightarrow> (1, emit (Fatalln (Str ''Invalid boolean value for VAULT_SKIP_VERIFY'')) w)
      | Some insecure0 \<Rightarrow>
          (let vaultConfig = \<lparr>vaultAddr = os_Getenv env ''VAULT_ADDR'',
                              token = os_Getenv env ''VAULT_TOKEN'',
                              snapshotPath = os_Getenv env ''VAULT_SNAPSHOT_PATH'',
                              insecure = insecure0\<rparr>;
               awsConfig = \<lparr>s3Bucket = os_Getenv env ''S3_BUCKET'',
                            s3Prefix = os_Getenv env ''S3_PREFIX'',
                            s3Region = os_Getenv env ''AWS_REGION''\<rparr>
           in case vaultClientConfig X env vaultConfig w of
                (Inl err, w1) \<Rightarrow>
                  (1, emit (Fatalln (Str ''Vault client initialization and configuration failed'')) w1)
              | (Inr vaultClient, w1) \<Rightarrow>
                  (case vaultRaftSnapshot2 X vaultClient (snapshotPath vaultConfig) w1 of
                     Exit n w2 \<Rightarrow> (n, w2)
                   | Panic w2 \<Rightarrow> (2, w2)
                   | Return (Inl err) w2 \<Rightarrow>
                       (1, emit (Fatalln (Str ''Vault Raft Snapshot failed'')) w2)
                   | Return (Inr snapshotFile) w2 \<Rightarrow>
                       (case snapshotS3Upload2 X awsConfig (file_Name snapshotFile w2) w2 of
                          Exit n w3 \<Rightarrow> (n, w3)
                        | Panic w3 \<Rightarrow> (2, w3)
                        | Return (Inl err) w3 \<Rightarrow> (1, emit (Fatalln (Str ''S3 upload failed'')) w3)
                        | Return (Inr uploadResult) w3 \<Rightarrow>
                            (0, fmt_Printf ''Vault Raft snapshot uploaded to, %s\<newline>''
                                  [Str (Location uploadResult)] w3)))))"

subsection \<open>Observations and symbolic runs\<close>

text \<open>What an outcome leaves behind, and what it hands to the caller (if anything).\<close>

fun world_of :: "'a outcome \<Rightarrow> world" where
  "world_of (Return _ w) = w"
| "world_of (Exit _ w) = w"
| "world_of (Panic w) = w"

fun result_of :: "'a outcome \<Rightarrow> 'a option" where
  "result_of (Return r _) = Some r"
| "result_of (Exit _ _) = None"
| "result_of (Panic _) = None"

text \<open>
  The runs of the functions, written out path by path. The lemmas \<open>*_run\<close> below prove
  that the functions above compute exactly these; the theorems on the claims are stated
  on the functions themselves.
\<close>

definition close_events :: "extern \<Rightarrow> nat \<Rightarrow> event list" where
  "close_events X f =
     (if close_fails X f then
        [EvClose f (Some (ResourceCloseError OsCloseFailure)),
         Println (Str ''Vault raft snapshot file failed to close''),
         Fatalln (Err (ResourceCloseError OsCloseFailure))]
      else [EvClose f None])"

definition snapshot_events :: "extern \<Rightarrow> string \<Rightarrow> nat \<Rightarrow> event list" where
  "snapshot_events X p f =
     (if openFile_fails X p then
        [EvOpenFile p, Println (Str (''snapshot file at '' @ p @ '' could not be created'')),
         Println (Err SnapshotIOError)]
      else if snd (raft_stream X) then
        [EvOpenFile p, EvRaftSnapshot f,
         EvClose f (if close_fails X f then Some (ResourceCloseError OsCloseFailure) else None),
         Println (Str ''Vault Raft snapshot invocation failed''), Println (Err SnapshotStreamError),
         EvClose f (Some (ResourceCloseError FileAlreadyClosed)),
         Println (Str ''Vault raft snapshot file failed to close''),
         Fatalln (Err (ResourceCloseError FileAlreadyClosed))]
      else [EvOpenFile p, EvRaftSnapshot f] @ close_events X f)"

definition snapshot_world :: "extern \<Rightarrow> string \<Rightarrow> world \<Rightarrow> world" where
  "snapshot_world X p w =
     (if openFile_fails X p then w\<lparr>trace := trace w @ snapshot_events X p (length (handles w))\<rparr>
      else w\<lparr>fs := (fs w)(p \<mapsto> fst (raft_stream X)),
             handles := handles w @
               [\<lparr>hname = p, hopen = False, hoffset = length (fst (raft_stream X))\<rparr>],
             trace := trace w @ snapshot_events X p (length (handles w))\<rparr>)"

definition snapshot_outcome :: "extern \<Rightarrow> string \<Rightarrow> world \<Rightarrow> (error + nat) outcome" where
  "snapshot_outcome X p w =
     (if openFile_fails X p then Return (Inl SnapshotIOError) (snapshot_world X p w)
      else if snd (raft_stream X) \<or> close_fails X (length (handles w))
        then Exit 1 (snapshot_world X p w)
      else Return (Inr (length (handles w))) (snapshot_world X p w))"

definition upload_events :: "string \<Rightarrow> extern \<Rightarrow> AWSConfig \<Rightarrow> string \<Rightarrow> world \<Rightarrow> event list" where
  "upload_events msg X cfg p w =
     (if fs w p = None \<or> open_fails X p then [EvOpen p, Printf msg [Str p, Err UploadOpenError]]
      else if newSession_fails X (s3Region cfg) then
        [EvOpen p, EvNewSession (s3Region cfg)] @ close_events X (length (handles w))
      else
        [EvOpen p, EvNewSession (s3Region cfg),
         EvUpload (s3Bucket cfg) (s3Prefix cfg @ ''-'' @ filepath_Base p) (content_of w p)] @
        (if upload_answer X (s3Bucket cfg) (s3Prefix cfg @ ''-'' @ filepath_Base p)
              (content_of w p) = None
         then [Println (Str (''Vault backup failed to upload to S3 bucket '' @ s3Bucket cfg)),
               Println (Err UploadTransferError)]
         else []) @
        close_events X (length (handles w)))"

definition upload_world :: "string \<Rightarrow> extern \<Rightarrow> AWSConfig \<Rightarrow> string \<Rightarrow> world \<Rightarrow> world" where
  "upload_world msg X cfg p w =
     (if fs w p = None \<or> open_fails X p then w\<lparr>trace := trace w @ upload_events msg X cfg p w\<rparr>
      else w\<lparr>handles := handles w @ [\<lparr>hname = p, hopen = False, hoffset = 0\<rparr>],
             trace := trace w @ upload_events msg X cfg p w\<rparr>)"

definition upload_outcome ::
  "string \<Rightarrow> extern \<Rightarrow> AWSConfig \<Rightarrow> string \<Rightarrow> world \<Rightarrow> (error + UploadOutput) outcome" where
  "upload_outcome msg X cfg p w =
     (if fs w p = None \<or> open_fails X p
        then Return (Inl UploadOpenError) (upload_world msg X cfg p w)
      else if close_fails X (length (handles w)) then Exit 1 (upload_world msg X cfg p w)
      else if newSession_fails X (s3Region cfg) then Panic (upload_world msg X cfg p w)
      else (case upload_answer X (s3Bucket cfg) (s3Prefix cfg @ ''-'' @ filepath_Base p)
                   (content_of w p) of
              None \<Rightarrow> Return (Inl UploadTransferError) (upload_world msg X cfg p w)
            | Some loc \<Rightarrow> Return (Inr \<lparr>Location = loc\<rparr>) (upload_world msg X cfg p w)))"

definition client_events :: "extern \<Rightarrow> (string \<rightharpoonup> string) \<Rightarrow> VaultConfig2 \<Rightarrow> event list" where
  "client_events X env cfg =
     (if configureTLS_fails X (insecure cfg) then
        [EvConfigureTLS (insecure cfg),
         Println (Str ''Vault TLS configuration failed to initialize''),
         Println (Err ConnectionConfigError)]
      else if newClient_fails X env (vaultAddr cfg) then
        [EvConfigureTLS (insecure cfg), EvNewClient (vaultAddr cfg),
         Println (Str ''Vault client failed to initialize''), Println (Err ClientInitError)]
      else if token cfg = ''aws-iam'' then
        (if newAWSAuth_fails X
         then [EvConfigureTLS (insecure cfg), EvNewClient (vaultAddr cfg), EvNewAWSAuth]
         else [EvConfigureTLS (insecure cfg), EvNewClient (vaultAddr cfg), EvNewAWSAuth, EvLogin])
      else if length (token cfg) \<noteq> 26 then
        [EvConfigureTLS (insecure cfg), EvNewClient (vaultAddr cfg)]
      else [EvConfigureTLS (insecure cfg), EvNewClient (vaultAddr cfg), EvSetToken (token cfg)])"

definition client_result :: "extern \<Rightarrow> (string \<rightharpoonup> string) \<Rightarrow> VaultConfig2 \<Rightarrow> error + client" where
  "client_result X env cfg =
     (if configureTLS_fails X (insecure cfg) then Inl ConnectionConfigError
      else if newClient_fails X env (vaultAddr cfg) then Inl ClientInitError
      else if token cfg = ''aws-iam'' then
        (if newAWSAuth_fails X then Inl (AuthMethodError ProviderInit)
         else (case login_answer X of
                 LoginErr \<Rightarrow> Inl (AuthMethodError LoginCall)
               | LoginNil \<Rightarrow> Inl (AuthMethodError NoAuthInfo)
               | LoginOk t \<Rightarrow>
                   Inr \<lparr>address = vaultAddr cfg, clientToken = Some t\<rparr>))
      else if length (token cfg) \<noteq> 26 then Inl InvalidCredentialError
      else Inr \<lparr>address = vaultAddr cfg, clientToken = Some (token cfg)\<rparr>)"

text \<open>The events of a run before any file is touched.\<close>

fun is_setup :: "event \<Rightarrow> bool" where
  "is_setup (EvConfigureTLS _) = True"
| "is_setup (EvNewClient _) = True"
| "is_setup EvNewAWSAuth = True"
| "is_setup EvLogin = True"
| "is_setup (EvSetToken _) = True"
| "is_setup (Println _) = True"
| "is_setup _ = False"

text \<open>
  What both revisions of \<^verbatim>\<open>main\<close> do once the client is authenticated: the snapshot
  stage, the upload stage and the report. \<open>msg\<close> is the format string in which the
  revisions differ.
\<close>

definition pipeline :: "string \<Rightarrow> extern \<Rightarrow> AWSConfig \<Rightarrow> string \<Rightarrow> world \<Rightarrow> nat \<times> world" where
  "pipeline msg X aws q w =
     (case snapshot_outcome X q w of
        Exit n w1 \<Rightarrow> (n, w1)
      | Panic w1 \<Rightarrow> (2, w1)
      | Return (Inl err) w1 \<Rightarrow> (1, emit (Fatalln (Str ''Vault Raft Snapshot failed'')) w1)
      | Return (Inr snapshotFile) w1 \<Rightarrow>
          (case upload_outcome msg X aws (file_Name snapshotFile w1) w1 of
             Exit n w2 \<Rightarrow> (n, w2)
           | Panic w2 \<Rightarrow> (2, w2)
           | Return (Inl err) w2 \<Rightarrow> (1, emit (Fatalln (Str ''S3 upload failed'')) w2)
           | Return (Inr uploadResult) w2 \<Rightarrow>
               (0, fmt_Printf ''Vault Raft snapshot uploaded to, %s\<newline>''
                     [Str (Location uploadResult)] w2)))"

subsection \<open>Example inputs\<close>

text \<open>Collaborators that all answer well, and the environment of the specification's
  example (\<^verbatim>\<open>/tmp/snap.out\<close>, prefix \<^verbatim>\<open>nightly\<close>).\<close>

definition X_ok :: extern where
  "X_ok = \<lparr>configureTLS_fails = (\<lambda>_. False), newClient_fails = (\<lambda>_ _. False),
            newAWSAuth_fails = False, login_answer = LoginOk ''s.session'',
            openFile_fails = (\<lambda>_. False), raft_stream = (''SNAPSHOT'', False),
            close_fails = (\<lambda>_. False), open_fails = (\<lambda>_. False),
            newSession_fails = (\<lambda>_. False),
            upload_answer = (\<lambda>b k _. Some (''s3://'' @ b @ ''/'' @ k))\<rparr>"

definition env_ok :: "string \<rightharpoonup> string" where
  "env_ok = [''VAULT_ADDR'' \<mapsto> ''https://vault:8200'',
             ''VAULT_TOKEN'' \<mapsto> ''s.abcdefghijklmnopqrstuvwx'',
             ''VAULT_SKIP_VERIFY'' \<mapsto> ''false'',
             ''VAULT_SNAPSHOT_PATH'' \<mapsto> ''/tmp/snap.out'',
             ''S3_BUCKET'' \<mapsto> ''backups'',
             ''S3_PREFIX'' \<mapsto> ''nightly'',
             ''AWS_REGION'' \<mapsto> ''us-east-1'']"

text \<open>The same collaborators with one answer changed.\<close>

definition X_stream_failed :: extern where
  "X_stream_failed = X_ok\<lparr>raft_stream := (''SNA'', True)\<rparr>"

definition X_rerun :: extern where
  "X_rerun = X_ok\<lparr>raft_stream := (''NEW'', False)\<rparr>"

definition X_snapshot_close_failed :: extern where
  "X_snapshot_close_failed = X_ok\<lparr>close_fails := (\<lambda>h. h = 0)\<rparr>"

definition X_upload_close_failed :: extern where
  "X_upload_close_failed = X_ok\<lparr>close_fails := (\<lambda>h. h = 1)\<rparr>"

definition X_upload_failed :: extern where
  "X_upload_failed = X_ok\<lparr>upload_answer := (\<lambda>_ _ _. None)\<rparr>"

definition X_tls_failed :: extern where
  "X_tls_failed = X_ok\<lparr>configureTLS_fails := (\<lambda>_. True)\<rparr>"

definition X_login_failed :: extern where
  "X_login_failed = X_ok\<lparr>login_answer := LoginErr\<rparr>"

text \<open>The example environment with the credential \<^verbatim>\<open>aws-iam\<close>, and with
  \<^verbatim>\<open>VAULT_SKIP_VERIFY\<close> unset.\<close>

definition env_iam :: "string \<rightharpoonup> string" where
  "env_iam = env_ok(''VAULT_TOKEN'' \<mapsto> ''aws-iam'')"

definition env_unset :: "string \<rightharpoonup> string" where
  "env_unset = env_ok(''VAULT_SKIP_VERIFY'' := None)"

section \<open>Symbolic runs of the functions\<close>

lemmas prim_defs = emit_def fmt_Println_def fmt_Printf_def log_Fatalln_def ConfigureTLS_def
  NewClient_def NewAWSAuth_def Login_def SetToken_def os_OpenFile_def os_Open_def file_Name_def
  is_open_def file_Close_def write_at_def content_of_def file_Write_def RaftSnapshot_def
  NewSession_def file_content_def Upload_def returning_def panicking_def snapshotFileClose_def

lemmas run_defs = snapshot_outcome_def snapshot_world_def snapshot_events_def close_events_def
  upload_outcome_def upload_world_def upload_events_def client_events_def client_result_def

lemma vaultRaftSnapshot2_run:
  "vaultRaftSnapshot2 X c p w = snapshot_outcome X p w"
  by (simp add: vaultRaftSnapshot2_def snapshot_outcome_def snapshot_world_def
      snapshot_events_def close_events_def prim_defs Let_def)

lemma vaultRaftSnapshot_run:
  "vaultRaftSnapshot X env cfg w =
     (if newClient_fails X env (vaultAddr cfg) then
        Return (Inl ClientInitError)
          (w\<lparr>trace := trace w @
                [EvNewClient (vaultAddr cfg), Println (Str ''Vault client failed to initialize''),
                 Println (Err ClientInitError)]\<rparr>)
      else if length (token cfg) \<noteq> 26 then
        Return (Inl InvalidCredentialError) (w\<lparr>trace := trace w @ [EvNewClient (vaultAddr cfg)]\<rparr>)
      else snapshot_outcome X (snapshotPath cfg)
             (w\<lparr>trace := trace w @ [EvNewClient (vaultAddr cfg), EvSetToken (token cfg)]\<rparr>))"
  by (simp add: vaultRaftSnapshot_def snapshot_outcome_def snapshot_world_def
      snapshot_events_def close_events_def prim_defs Let_def)

lemma snapshotS3Upload_fmt_run:
  "snapshotS3Upload_fmt msg X cfg p w = upload_outcome msg X cfg p w"
  by (auto simp add: snapshotS3Upload_fmt_def upload_outcome_def upload_world_def
      upload_events_def close_events_def prim_defs Let_def split: option.splits)

lemma vaultClientConfig_run:
  "vaultClientConfig X env cfg w = (client_result X env cfg, w\<lparr>trace := trace w @ client_events X env cfg\<rparr>)"
  by (simp add: vaultClientConfig_def client_result_def client_events_def prim_defs Let_def
      split: login_answer.splits)

lemmas main_runs = main_def vaultRaftSnapshot_run snapshotS3Upload_def snapshotS3Upload_fmt_run

lemmas main2_runs = main2_def vaultClientConfig_run vaultRaftSnapshot2_run snapshotS3Upload2_def
  snapshotS3Upload_fmt_run

lemma main_pipeline:
  "main X env w =
     (if newClient_fails X env (os_Getenv env ''VAULT_ADDR'') then
        (1, w\<lparr>trace := trace w @
                [EvNewClient (os_Getenv env ''VAULT_ADDR''),
                 Println (Str ''Vault client failed to initialize''),
                 Println (Err ClientInitError), Fatalln (Str ''Vault Raft Snapshot failed'')]\<rparr>)
      else if length (os_Getenv env ''VAULT_TOKEN'') \<noteq> 26 then
        (1, w\<lparr>trace := trace w @
                [EvNewClient (os_Getenv env ''VAULT_ADDR''),
                 Fatalln (Str ''Vault Raft Snapshot failed'')]\<rparr>)
      else pipeline ''Failed to open snapshot file %q, %v'' X
             \<lparr>s3Bucket = os_Getenv env ''S3_BUCKET'', s3Prefix = os_Getenv env ''S3_PREFIX'',
              s3Region = os_Getenv env ''AWS_REGION''\<rparr>
             (os_Getenv env ''VAULT_SNAPSHOT_PATH'')
             (w\<lparr>trace := trace w @ [EvNewClient (os_Getenv env ''VAULT_ADDR''),
                                     EvSetToken (os_Getenv env ''VAULT_TOKEN'')]\<rparr>))"
  unfolding main_runs pipeline_def
  by (simp add: emit_def Let_def)

lemma main2_pipeline:
  "main2 X env w =
     (case strconv_ParseBool (os_Getenv env ''VAULT_SKIP_VERIFY'') of
        None \<Rightarrow> (1, w\<lparr>trace := trace w @ [Fatalln (Str ''Invalid boolean value for VAULT_SKIP_VERIFY'')]\<rparr>)
      | Some b \<Rightarrow>
          (case client_result X env \<lparr>vaultAddr = os_Getenv env ''VAULT_ADDR'',
                              token = os_Getenv env ''VAULT_TOKEN'',
                              snapshotPath = os_Getenv env ''VAULT_SNAPSHOT_PATH'',
                              insecure = b\<rparr> of
             Inl err \<Rightarrow>
               (1, w\<lparr>trace := trace w @
                      client_events X env \<lparr>vaultAddr = os_Getenv env ''VAULT_ADDR'',
                              token = os_Getenv env ''VAULT_TOKEN'',
                              snapshotPath = os_Getenv env ''VAULT_SNAPSHOT_PATH'',
                              insecure = b\<rparr> @
                      [Fatalln (Str ''Vault client initialization and configuration failed'')]\<rparr>)
           | Inr c \<Rightarrow>
               pipeline ''Failed to open snapshot file %q: %v'' X
                 \<lparr>s3Bucket = os_Getenv env ''S3_BUCKET'', s3Prefix = os_Getenv env ''S3_PREFIX'',
                  s3Region = os_Getenv env ''AWS_REGION''\<rparr>
                 (os_Getenv env ''VAULT_SNAPSHOT_PATH'')
                 (w\<lparr>trace := trace w @
                      client_events X env \<lparr>vaultAddr = os_Getenv env ''VAULT_ADDR'',
                              token = os_Getenv env ''VAULT_TOKEN'',
                              snapshotPath = os_Getenv env ''VAULT_SNAPSHOT_PATH'',
                              insecure = b\<rparr>\<rparr>)))"
  unfolding main2_runs pipeline_def
  by (simp add: emit_def Let_def split: option.split sum.split)


lemmas leaf_defs = pipeline_def run_defs file_Name_def emit_def fmt_Printf_def content_of_def

text \<open>The ten paths through the snapshot and upload stages, from a process that has no
  file open yet.\<close>

lemma path_openFile_failed:
  assumes "openFile_fails X q"
  shows "pipeline msg X aws q \<lparr>fs = files, handles = [], trace = pre\<rparr> =
     (1, \<lparr>fs = files, handles = [],
          trace = pre @ [EvOpenFile q,
                         Println (Str (''snapshot file at '' @ q @ '' could not be created'')),
                         Println (Err SnapshotIOError),
                         Fatalln (Str ''Vault Raft Snapshot failed'')]\<rparr>)"
  using assms by (simp add: leaf_defs)

lemma path_stream_failed:
  assumes "\<not> openFile_fails X q" "snd (raft_stream X)"
  shows "pipeline msg X aws q \<lparr>fs = files, handles = [], trace = pre\<rparr> =
     (1, \<lparr>fs = files(q \<mapsto> fst (raft_stream X)),
          handles = [\<lparr>hname = q, hopen = False, hoffset = length (fst (raft_stream X))\<rparr>],
          trace = pre @ [EvOpenFile q, EvRaftSnapshot 0,
                         EvClose 0 (if close_fails X 0
                                    then Some (ResourceCloseError OsCloseFailure) else None),
                         Println (Str ''Vault Raft snapshot invocation failed''),
                         Println (Err SnapshotStreamError),
                         EvClose 0 (Some (ResourceCloseError FileAlreadyClosed)),
                         Println (Str ''Vault raft snapshot file failed to close''),
                         Fatalln (Err (ResourceCloseError FileAlreadyClosed))]\<rparr>)"
  using assms by (simp add: leaf_defs)

lemma path_snapshot_close_failed:
  assumes "\<not> openFile_fails X q" "\<not> snd (raft_stream X)" "close_fails X 0"
  shows "pipeline msg X aws q \<lparr>fs = files, handles = [], trace = pre\<rparr> =
     (1, \<lparr>fs = files(q \<mapsto> fst (raft_stream X)),
          handles = [\<lparr>hname = q, hopen = False, hoffset = length (fst (raft_stream X))\<rparr>],
          trace = pre @ [EvOpenFile q, EvRaftSnapshot 0,
                         EvClose 0 (Some (ResourceCloseError OsCloseFailure)),
                         Println (Str ''Vault raft snapshot file failed to close''),
                         Fatalln (Err (ResourceCloseError OsCloseFailure))]\<rparr>)"
  using assms by (simp add: leaf_defs)

lemma path_open_failed:
  assumes "\<not> openFile_fails X q" "\<not> snd (raft_stream X)" "\<not> close_fails X 0"
    "open_fails X q"
  shows "pipeline msg X aws q \<lparr>fs = files, handles = [], trace = pre\<rparr> =
     (1, \<lparr>fs = files(q \<mapsto> fst (raft_stream X)),
          handles = [\<lparr>hname = q, hopen = False, hoffset = length (fst (raft_stream X))\<rparr>],
          trace = pre @ [EvOpenFile q, EvRaftSnapshot 0, EvClose 0 None, EvOpen q,
                         Printf msg [Str q, Err UploadOpenError],
                         Fatalln (Str ''S3 upload failed'')]\<rparr>)"
  using assms by (simp add: leaf_defs)

lemma path_session_panic_close_failed:
  assumes "\<not> openFile_fails X q" "\<not> snd (raft_stream X)" "\<not> close_fails X 0"
    "\<not> open_fails X q" "newSession_fails X (s3Region aws)" "close_fails X 1"
  shows "pipeline msg X aws q \<lparr>fs = files, handles = [], trace = pre\<rparr> =
     (1, \<lparr>fs = files(q \<mapsto> fst (raft_stream X)),
          handles = [\<lparr>hname = q, hopen = False, hoffset = length (fst (raft_stream X))\<rparr>,
                     \<lparr>hname = q, hopen = False, hoffset = 0\<rparr>],
          trace = pre @ [EvOpenFile q, EvRaftSnapshot 0, EvClose 0 None, EvOpen q,
                         EvNewSession (s3Region aws),
                         EvClose 1 (Some (ResourceCloseError OsCloseFailure)),
                         Println (Str ''Vault raft snapshot file failed to close''),
                         Fatalln (Err (ResourceCloseError OsCloseFailure))]\<rparr>)"
  using assms by (simp add: leaf_defs)

lemma path_session_panic:
  assumes "\<not> openFile_fails X q" "\<not> snd (raft_stream X)" "\<not> close_fails X 0"
    "\<not> open_fails X q" "newSession_fails X (s3Region aws)" "\<not> close_fails X 1"
  shows "pipeline msg X aws q \<lparr>fs = files, handles = [], trace = pre\<rparr> =
     (2, \<lparr>fs = files(q \<mapsto> fst (raft_stream X)),
          handles = [\<lparr>hname = q, hopen = False, hoffset = length (fst (raft_stream X))\<rparr>,
                     \<lparr>hname = q, hopen = False, hoffset = 0\<rparr>],
          trace = pre @ [EvOpenFile q, EvRaftSnapshot 0, EvClose 0 None, EvOpen q,
                         EvNewSession (s3Region aws), EvClose 1 None]\<rparr>)"
  using assms by (simp add: leaf_defs)

lemma path_upload_failed_close_failed:
  assumes "\<not> openFile_fails X q" "\<not> snd (raft_stream X)" "\<not> close_fails X 0"
    "\<not> open_fails X q" "\<not> newSession_fails X (s3Region aws)"
    "upload_answer X (s3Bucket aws) (s3Prefix aws @ ''-'' @ filepath_Base q)
       (fst (raft_stream X)) = None"
    "close_fails X 1"
  shows "pipeline msg X aws q \<lparr>fs = files, handles = [], trace = pre\<rparr> =
     (1, \<lparr>fs = files(q \<mapsto> fst (raft_stream X)),
          handles = [\<lparr>hname = q, hopen = False, hoffset = length (fst (raft_stream X))\<rparr>,
                     \<lparr>hname = q, hopen = False, hoffset = 0\<rparr>],
          trace = pre @ [EvOpenFile q, EvRaftSnapshot 0, EvClose 0 None, EvOpen q,
                         EvNewSession (s3Region aws),
                         EvUpload (s3Bucket aws) (s3Prefix aws @ ''-'' @ filepath_Base q)
                           (fst (raft_stream X)),
                         Println (Str (''Vault backup failed to upload to S3 bucket '' @
                                       s3Bucket aws)),
                         Println (Err UploadTransferError),
                         EvClose 1 (Some (ResourceCloseError OsCloseFailure)),
                         Println (Str ''Vault raft snapshot file failed to close''),
                         Fatalln (Err (ResourceCloseError OsCloseFailure))]\<rparr>)"
  using assms by (simp add: leaf_defs)

lemma path_upload_failed:
  assumes "\<not> openFile_fails X q" "\<not> snd (raft_stream X)" "\<not> close_fails X 0"
    "\<not> open_fails X q" "\<not> newSession_fails X (s3Region aws)"
    "upload_answer X (s3Bucket aws) (s3Prefix aws @ ''-'' @ filepath_Base q)
       (fst (raft_stream X)) = None"
    "\<not> close_fails X 1"
  shows "pipeline msg X aws q \<lparr>fs = files, handles = [], trace = pre\<rparr> =
     (1, \<lparr>fs = files(q \<mapsto> fst (raft_stream X)),
          handles = [\<lparr>hname = q, hopen = False, hoffset = length (fst (raft_stream X))\<rparr>,
                     \<lparr>hname = q, hopen = False, hoffset = 0\<rparr>],
          trace = pre @ [EvOpenFile q, EvRaftSnapshot 0, EvClose 0 None, EvOpen q,
                         EvNewSession (s3Region aws),
                         EvUpload (s3Bucket aws) (s3Prefix aws @ ''-'' @ filepath_Base q)
                           (fst (raft_stream X)),
                         Println (Str (''Vault backup failed to upload to S3 bucket '' @
                                       s3Bucket aws)),
                         Println (Err UploadTransferError),
                         EvClose 1 None,
                         Fatalln (Str ''S3 upload failed'')]\<rparr>)"
  using assms by (simp add: leaf_defs)

lemma path_uploaded_close_failed:
  assumes "\<not> openFile_fails X q" "\<not> snd (raft_stream X)" "\<not> close_fails X 0"
    "\<not> open_fails X q" "\<not> newSession_fails X (s3Region aws)"
    "upload_answer X (s3Bucket aws) (s3Prefix aws @ ''-'' @ filepath_Base q)
       (fst (raft_stream X)) = Some loc"
    "close_fails X 1"
  shows "pipeline msg X aws q \<lparr>fs = files, handles = [], trace = pre\<rparr> =
     (1, \<lparr>fs = files(q \<mapsto> fst (raft_stream X)),
          handles = [\<lparr>hname = q, hopen = False, hoffset = length (fst (raft_stream X))\<rparr>,
                     \<lparr>hname = q, hopen = False, hoffset = 0\<rparr>],
          trace = pre @ [EvOpenFile q, EvRaftSnapshot 0, EvClose 0 None, EvOpen q,
                         EvNewSession (s3Region aws),
                         EvUpload (s3Bucket aws) (s3Prefix aws @ ''-'' @ filepath_Base q)
                           (fst (raft_stream X)),
                         EvClose 1 (Some (ResourceCloseError OsCloseFailure)),
                         Println (Str ''Vault raft snapshot file failed to close''),
                         Fatalln (Err (ResourceCloseError OsCloseFailure))]\<rparr>)"
  using assms by (simp add: leaf_defs)

lemma path_success:
  assumes "\<not> openFile_fails X q" "\<not> snd (raft_stream X)" "\<not> close_fails X 0"
    "\<not> open_fails X q" "\<not> newSession_fails X (s3Region aws)"
    "upload_answer X (s3Bucket aws) (s3Prefix aws @ ''-'' @ filepath_Base q)
       (fst (raft_stream X)) = Some loc"
    "\<not> close_fails X 1"
  shows "pipeline msg X aws q \<lparr>fs = files, handles = [], trace = pre\<rparr> =
     (0, \<lparr>fs = files(q \<mapsto> fst (raft_stream X)),
          handles = [\<lparr>hname = q, hopen = False, hoffset = length (fst (raft_stream X))\<rparr>,
                     \<lparr>hname = q, hopen = False, hoffset = 0\<rparr>],
          trace = pre @ [EvOpenFile q, EvRaftSnapshot 0, EvClose 0 None, EvOpen q,
                         EvNewSession (s3Region aws),
                         EvUpload (s3Bucket aws) (s3Prefix aws @ ''-'' @ filepath_Base q)
                           (fst (raft_stream X)),
                         EvClose 1 None,
                         Printf ''Vault Raft snapshot uploaded to, %s\<newline>'' [Str loc]]\<rparr>)"
  using assms by (simp add: leaf_defs)

lemma setup_client_events: "list_all is_setup (client_events X env cfg)"
  by (simp add: client_events_def)

lemma run_cases [consumes 1, case_names setup_failed openFile_failed stream_failed
    snapshot_close_failed open_failed session_panic_close_failed session_panic
    upload_failed_close_failed upload_failed uploaded_close_failed success]:
  fixes X :: extern and env :: "string \<rightharpoonup> string" and files :: "string \<rightharpoonup> bytes"
  defines "q \<equiv> os_Getenv env ''VAULT_SNAPSHOT_PATH''"
    and "b \<equiv> os_Getenv env ''S3_BUCKET''"
    and "k \<equiv> os_Getenv env ''S3_PREFIX'' @ ''-'' @ filepath_Base (os_Getenv env ''VAULT_SNAPSHOT_PATH'')"
    and "rg \<equiv> os_Getenv env ''AWS_REGION''"
    and "d \<equiv> fst (raft_stream X)"
  assumes r: "r = main X env (start files) \<or> r = main2 X env (start files)"
  obtains
    (setup_failed) pre m where "list_all is_setup pre"
      "r = (1, \<lparr>fs = files, handles = [], trace = pre @ [Fatalln (Str m)]\<rparr>)"
  | (openFile_failed) pre where "list_all is_setup pre" "openFile_fails X q"
      "r = (1, \<lparr>fs = files, handles = [],
          trace = pre @ [EvOpenFile q,
                         Println (Str (''snapshot file at '' @ q @ '' could not be created'')),
                         Println (Err SnapshotIOError),
                         Fatalln (Str ''Vault Raft Snapshot failed'')]\<rparr>)"
  | (stream_failed) pre where "list_all is_setup pre" "snd (raft_stream X)"
      "r = (1, \<lparr>fs = files(q \<mapsto> d),
          handles = [\<lparr>hname = q, hopen = False, hoffset = length d\<rparr>],
          trace = pre @ [EvOpenFile q, EvRaftSnapshot 0,
                         EvClose 0 (if close_fails X 0
                                    then Some (ResourceCloseError OsCloseFailure) else None),
                         Println (Str ''Vault Raft snapshot invocation failed''),
                         Println (Err SnapshotStreamError),
                         EvClose 0 (Some (ResourceCloseError FileAlreadyClosed)),
                         Println (Str ''Vault raft snapshot file failed to close''),
                         Fatalln (Err (ResourceCloseError FileAlreadyClosed))]\<rparr>)"
  | (snapshot_close_failed) pre where "list_all is_setup pre" "\<not> snd (raft_stream X)"
      "close_fails X 0"
      "r = (1, \<lparr>fs = files(q \<mapsto> d),
          handles = [\<lparr>hname = q, hopen = False, hoffset = length d\<rparr>],
          trace = pre @ [EvOpenFile q, EvRaftSnapshot 0,
                         EvClose 0 (Some (ResourceCloseError OsCloseFailure)),
                         Println (Str ''Vault raft snapshot file failed to close''),
                         Fatalln (Err (ResourceCloseError OsCloseFailure))]\<rparr>)"
  | (open_failed) pre msg where "list_all is_setup pre" "\<not> snd (raft_stream X)"
      "r = (1, \<lparr>fs = files(q \<mapsto> d),
          handles = [\<lparr>hname = q, hopen = False, hoffset = length d\<rparr>],
          trace = pre @ [EvOpenFile q, EvRaftSnapshot 0, EvClose 0 None, EvOpen q,
                         Printf msg [Str q, Err UploadOpenError],
                         Fatalln (Str ''S3 upload failed'')]\<rparr>)"
  | (session_panic_close_failed) pre where "list_all is_setup pre" "\<not> snd (raft_stream X)"
      "close_fails X 1"
      "r = (1, \<lparr>fs = files(q \<mapsto> d),
          handles = [\<lparr>hname = q, hopen = False, hoffset = length d\<rparr>,
                     \<lparr>hname = q, hopen = False, hoffset = 0\<rparr>],
          trace = pre @ [EvOpenFile q, EvRaftSnapshot 0, EvClose 0 None, EvOpen q,
                         EvNewSession rg,
                         EvClose 1 (Some (ResourceCloseError OsCloseFailure)),
                         Println (Str ''Vault raft snapshot file failed to close''),
                         Fatalln (Err (ResourceCloseError OsCloseFailure))]\<rparr>)"
  | (session_panic) pre where "list_all is_setup pre" "\<not> snd (raft_stream X)"
      "r = (2, \<lparr>fs = files(q \<mapsto> d),
          handles = [\<lparr>hname = q, hopen = False, hoffset = length d\<rparr>,
                     \<lparr>hname = q, hopen = False, hoffset = 0\<rparr>],
          trace = pre @ [EvOpenFile q, EvRaftSnapshot 0, EvClose 0 None, EvOpen q,
                         EvNewSession rg, EvClose 1 None]\<rparr>)"
  | (upload_failed_close_failed) pre where "list_all is_setup pre" "\<not> snd (raft_stream X)"
      "upload_answer X b k d = None" "close_fails X 1"
      "r = (1, \<lparr>fs = files(q \<mapsto> d),
          handles = [\<lparr>hname = q, hopen = False, hoffset = length d\<rparr>,
                     \<lparr>hname = q, hopen = False, hoffset = 0\<rparr>],
          trace = pre @ [EvOpenFile q, EvRaftSnapshot 0, EvClose 0 None, EvOpen q,
                         EvNewSession rg, EvUpload b k d,
                         Println (Str (''Vault backup failed to upload to S3 bucket '' @ b)),
                         Println (Err UploadTransferError),
                         EvClose 1 (Some (ResourceCloseError OsCloseFailure)),
                         Println (Str ''Vault raft snapshot file failed to close''),
                         Fatalln (Err (ResourceCloseError OsCloseFailure))]\<rparr>)"
  | (upload_failed) pre where "list_all is_setup pre" "\<not> snd (raft_stream X)"
      "upload_answer X b k d = None"
      "r = (1, \<lparr>fs = files(q \<mapsto> d),
          handles = [\<lparr>hname = q, hopen = False, hoffset = length d\<rparr>,
                     \<lparr>hname = q, hopen = False, hoffset = 0\<rparr>],
          trace = pre @ [EvOpenFile q, EvRaftSnapshot 0, EvClose 0 None, EvOpen q,
                         EvNewSession rg, EvUpload b k d,
                         Println (Str (''Vault backup failed to upload to S3 bucket '' @ b)),
                         Println (Err UploadTransferError),
                         EvClose 1 None,
                         Fatalln (Str ''S3 upload failed'')]\<rparr>)"
  | (uploaded_close_failed) pre loc where "list_all is_setup pre" "\<not> snd (raft_stream X)"
      "upload_answer X b k d = Some loc" "close_fails X 1"
      "r = (1, \<lparr>fs = files(q \<mapsto> d),
          handles = [\<lparr>hname = q, hopen = False, hoffset = length d\<rparr>,
                     \<lparr>hname = q, hopen = False, hoffset = 0\<rparr>],
          trace = pre @ [EvOpenFile q, EvRaftSnapshot 0, EvClose 0 None, EvOpen q,
                         EvNewSession rg, EvUpload b k d,
                         EvClose 1 (Some (ResourceCloseError OsCloseFailure)),
                         Println (Str ''Vault raft snapshot file failed to close''),
                         Fatalln (Err (ResourceCloseError OsCloseFailure))]\<rparr>)"
  | (success) pre loc where "list_all is_setup pre" "\<not> snd (raft_stream X)"
      "upload_answer X b k d = Some loc" "\<not> close_fails X 0" "\<not> close_fails X 1"
      "r = (0, \<lparr>fs = files(q \<mapsto> d),
          handles = [\<lparr>hname = q, hopen = False, hoffset = length d\<rparr>,
                     \<lparr>hname = q, hopen = False, hoffset = 0\<rparr>],
          trace = pre @ [EvOpenFile q, EvRaftSnapshot 0, EvClose 0 None, EvOpen q,
                         EvNewSession rg, EvUpload b k d, EvClose 1 None,
                         Printf ''Vault Raft snapshot uploaded to, %s\<newline>'' [Str loc]]\<rparr>)"
proof -
  define aws where
    "aws = \<lparr>s3Bucket = os_Getenv env ''S3_BUCKET'', s3Prefix = os_Getenv env ''S3_PREFIX'',
            s3Region = os_Getenv env ''AWS_REGION''\<rparr>"
  define ua where
    "ua = upload_answer X (s3Bucket aws) (s3Prefix aws @ ''-'' @ filepath_Base q)
            (fst (raft_stream X))"
  note unfolds = aws_def q_def b_def k_def rg_def d_def ua_def
  have piped: thesis
    if p: "list_all is_setup pre"
      and r': "r = pipeline msg X aws q \<lparr>fs = files, handles = [], trace = pre\<rparr>"
    for pre msg
  proof (cases "openFile_fails X q")
    case True
    from path_openFile_failed [OF True, of msg aws files pre] r' p True show ?thesis
      by (intro openFile_failed [of pre]) (simp_all add: unfolds)
  next
    case opened: False
    show ?thesis
    proof (cases "snd (raft_stream X)")
      case True
      from path_stream_failed [OF opened True, of msg aws files pre] r' p True show ?thesis
        by (intro stream_failed [of pre]) (simp_all add: unfolds)
    next
      case streamed: False
      show ?thesis
      proof (cases "close_fails X 0")
        case True
        from path_snapshot_close_failed [OF opened streamed True, of msg aws files pre]
          r' p streamed True
        show ?thesis
          by (intro snapshot_close_failed [of pre]) (simp_all add: unfolds)
      next
        case closed: False
        note snap = opened streamed closed
        show ?thesis
        proof (cases "open_fails X q")
          case True
          from path_open_failed [OF snap True, of msg aws files pre] r' p streamed
          show ?thesis
            by (intro open_failed [of pre msg]) (simp_all add: unfolds)
        next
          case reopened: False
          show ?thesis
          proof (cases "newSession_fails X (s3Region aws)")
            case True
            show ?thesis
            proof (cases "close_fails X 1")
              case c1: True
              from path_session_panic_close_failed [OF snap reopened True c1, of msg files pre]
                r' p streamed c1
              show ?thesis
                by (intro session_panic_close_failed [of pre]) (simp_all add: unfolds)
            next
              case c1: False
              from path_session_panic [OF snap reopened True c1, of msg files pre]
                r' p streamed
              show ?thesis
                by (intro session_panic [of pre]) (simp_all add: unfolds)
            qed
          next
            case session: False
            show ?thesis
            proof (cases ua)
              case None
              then have u: "upload_answer X (s3Bucket aws) (s3Prefix aws @ ''-'' @ filepath_Base q)
                              (fst (raft_stream X)) = None"
                by (simp add: ua_def)
              show ?thesis
              proof (cases "close_fails X 1")
                case c1: True
                from path_upload_failed_close_failed [OF snap reopened session u c1, of msg files pre]
                  r' p streamed c1 u
                show ?thesis
                  by (intro upload_failed_close_failed [of pre]) (simp_all add: unfolds)
              next
                case c1: False
                from path_upload_failed [OF snap reopened session u c1, of msg files pre]
                  r' p streamed u
                show ?thesis
                  by (intro upload_failed [of pre]) (simp_all add: unfolds)
              qed
            next
              case (Some loc)
              then have u: "upload_answer X (s3Bucket aws) (s3Prefix aws @ ''-'' @ filepath_Base q)
                              (fst (raft_stream X)) = Some loc"
                by (simp add: ua_def)
              show ?thesis
              proof (cases "close_fails X 1")
                case c1: True
                from path_uploaded_close_failed [OF snap reopened session u c1, of msg files pre]
                  r' p streamed c1 u
                show ?thesis
                  by (intro uploaded_close_failed [of pre loc]) (simp_all add: unfolds)
              next
                case c1: False
                from path_success [OF snap reopened session u c1, of msg files pre]
                  r' p streamed closed c1 u
                show ?thesis
                  by (intro success [of pre loc]) (simp_all add: unfolds)
              qed
            qed
          qed
        qed
      qed
    qed
  qed
  from r show thesis
  proof
    assume m: "r = main X env (start files)"
    show thesis
    proof (cases "newClient_fails X env (os_Getenv env ''VAULT_ADDR'')")
      case True
      with m show ?thesis
        by (intro setup_failed [of "[EvNewClient (os_Getenv env ''VAULT_ADDR''),
                 Println (Str ''Vault client failed to initialize''),
                 Println (Err ClientInitError)]" "''Vault Raft Snapshot failed''"])
           (simp_all add: main_pipeline start_def)
    next
      case client: False
      show ?thesis
      proof (cases "length (os_Getenv env ''VAULT_TOKEN'') = 26")
        case False
        with m client show ?thesis
          by (intro setup_failed [of "[EvNewClient (os_Getenv env ''VAULT_ADDR'')]"
                 "''Vault Raft Snapshot failed''"])
             (simp_all add: main_pipeline start_def)
      next
        case True
        with m client show ?thesis
          by (intro piped [of "[EvNewClient (os_Getenv env ''VAULT_ADDR''),
                 EvSetToken (os_Getenv env ''VAULT_TOKEN'')]"
                 "''Failed to open snapshot file %q, %v''"])
             (simp_all add: main_pipeline start_def unfolds)
      qed
    qed
  next
    assume m: "r = main2 X env (start files)"
    show thesis
    proof (cases "strconv_ParseBool (os_Getenv env ''VAULT_SKIP_VERIFY'')")
      case None
      with m show ?thesis
        by (intro setup_failed [of "[]" "''Invalid boolean value for VAULT_SKIP_VERIFY''"])
           (simp_all add: main2_pipeline start_def)
    next
      case (Some i)
      define cfg where
        "cfg = \<lparr>vaultAddr = os_Getenv env ''VAULT_ADDR'', token = os_Getenv env ''VAULT_TOKEN'',
                snapshotPath = os_Getenv env ''VAULT_SNAPSHOT_PATH'', insecure = i\<rparr>"
      show ?thesis
      proof (cases "client_result X env cfg")
        case (Inl e)
        with m Some show ?thesis
          by (intro setup_failed [of "client_events X env cfg"
                 "''Vault client initialization and configuration failed''"])
             (simp_all add: main2_pipeline start_def cfg_def [symmetric] setup_client_events)
      next
        case (Inr c)
        with m Some show ?thesis
          by (intro piped [of "client_events X env cfg" "''Failed to open snapshot file %q: %v''"])
             (simp_all add: main2_pipeline start_def cfg_def [symmetric] setup_client_events unfolds)
      qed
    qed
  qed
qed

lemma setup_mem: "list_all is_setup pre \<Longrightarrow> e \<in> set pre \<Longrightarrow> is_setup e"
  by (simp add: list_all_iff)

lemma setup_no_upload: "list_all is_setup pre \<Longrightarrow> filter is_upload pre = []"
  by (induction pre) (auto elim: is_setup.elims)

lemma setup_no_close: "list_all is_setup pre \<Longrightarrow> filter is_close pre = []"
  by (induction pre) (auto elim: is_setup.elims)

lemma snapshot_outcome_world: "world_of (snapshot_outcome X p w) = snapshot_world X p w"
  by (simp add: snapshot_outcome_def)

lemma snapshot_world_trace:
  "trace (snapshot_world X p w) = trace w @ snapshot_events X p (length (handles w))"
  by (simp add: snapshot_world_def)

lemma upload_outcome_world: "world_of (upload_outcome msg X aws p w) = upload_world msg X aws p w"
  by (simp add: upload_outcome_def split: option.split)

lemma upload_world_trace:
  "trace (upload_world msg X aws p w) = trace w @ upload_events msg X aws p w"
  by (simp add: upload_world_def)

lemma client_events_network:
  "token cfg \<noteq> ''aws-iam'' \<Longrightarrow> filter is_network (client_events X env cfg) = []"
  by (simp add: client_events_def)

lemma client_events_first:
  "\<exists>rest. client_events X env cfg = EvConfigureTLS (insecure cfg) # rest"
  by (simp add: client_events_def)

lemma ParseBool_rejects:
  "strconv_ParseBool s = None \<longleftrightarrow>
     s \<notin> set [''1'', ''t'', ''T'', ''TRUE'', ''true'', ''True'',
              ''0'', ''f'', ''F'', ''FALSE'', ''false'', ''False'']"
  by (simp add: strconv_ParseBool_def)

text \<open>On a path that ends in a file name, \<^verbatim>\<open>filepath.Base\<close> is that file name.\<close>

lemma filepath_Base_file:
  assumes "name \<noteq> []" "CHR ''/'' \<notin> set name"
  shows "filepath_Base (dir @ ''/'' @ name) = name" and "filepath_Base name = name"
proof -
  obtain x xs where rn: "rev name = x # xs"
    using assms(1) by (cases "rev name") auto
  have "x \<in> set name"
    using rn by (metis list.set_intros(1) set_rev)
  with assms(2) have x: "x \<noteq> CHR ''/''"
    by auto
  have strip: "stripTrailingSlashes (dir @ ''/'' @ name) = dir @ ''/'' @ name"
    "stripTrailingSlashes name = name"
    using rn x by (simp_all add: stripTrailingSlashes_def rev_swap [symmetric])
  have all: "\<And>c. c \<in> set (rev name) \<Longrightarrow> c \<noteq> CHR ''/''"
    using assms by auto
  have "takeWhile (\<lambda>c. c \<noteq> CHR ''/'') (rev name @ CHR ''/'' # rev dir) =
          rev name @ takeWhile (\<lambda>c. c \<noteq> CHR ''/'') (CHR ''/'' # rev dir)"
    by (rule takeWhile_append2) (use all in blast)
  then have last1: "lastElement (dir @ ''/'' @ name) = name"
    by (simp add: lastElement_def)
  have tw: "takeWhile (\<lambda>c. c \<noteq> CHR ''/'') (rev name) = rev name"
    using all by (simp add: takeWhile_eq_all_conv)
  have last2: "lastElement name = name"
    unfolding lastElement_def tw by simp
  show "filepath_Base (dir @ ''/'' @ name) = name"
    using assms(1) by (simp only: filepath_Base_def strip last1 Let_def) simp
  show "filepath_Base name = name"
    using assms(1) by (simp only: filepath_Base_def strip last2 Let_def) simp
qed

text \<open>The stages after the client only ever add to the trace.\<close>

lemma pipeline_extends_trace:
  "\<exists>rest. trace (snd (pipeline msg X aws q w)) = trace w @ rest"
proof (cases "snapshot_outcome X q w")
  case (Return res w1)
  then have w1: "w1 = snapshot_world X q w"
    using snapshot_outcome_world [of X q w] by simp
  show ?thesis
  proof (cases res)
    case (Inl e)
    with Return w1 show ?thesis
      by (simp add: pipeline_def emit_def snapshot_world_trace)
  next
    case (Inr f)
    note snap = \<open>snapshot_outcome X q w = Return res w1\<close>
    show ?thesis
    proof (cases "upload_outcome msg X aws (file_Name f w1) w1")
      case (Return res2 w2)
      then have "w2 = upload_world msg X aws (file_Name f w1) w1"
        using upload_outcome_world [of msg X aws "file_Name f w1" w1] by simp
      with Return Inr snap w1 show ?thesis
        by (cases res2)
          (simp_all add: pipeline_def emit_def fmt_Printf_def snapshot_world_trace
            upload_world_trace)
    next
      case (Exit n w2)
      then have "w2 = upload_world msg X aws (file_Name f w1) w1"
        using upload_outcome_world [of msg X aws "file_Name f w1" w1] by simp
      with Exit Inr snap w1 show ?thesis
        by (simp add: pipeline_def snapshot_world_trace upload_world_trace)
    next
      case (Panic w2)
      then have "w2 = upload_world msg X aws (file_Name f w1) w1"
        using upload_outcome_world [of msg X aws "file_Name f w1" w1] by simp
      with Panic Inr snap w1 show ?thesis
        by (simp add: pipeline_def snapshot_world_trace upload_world_trace)
    qed
  qed
next
  case (Exit n w1)
  then have "w1 = snapshot_world X q w"
    using snapshot_outcome_world [of X q w] by simp
  with Exit show ?thesis
    by (simp add: pipeline_def snapshot_world_trace)
next
  case (Panic w1)
  then have "w1 = snapshot_world X q w"
    using snapshot_outcome_world [of X q w] by simp
  with Panic show ?thesis
    by (simp add: pipeline_def snapshot_world_trace)
qed

section \<open>Example runs\<close>

text \<open>Runs of \<^verbatim>\<open>main\<close> on the example environment, one per way the collaborators can
  answer; the witnesses of the claims are read off them.\<close>

lemmas example_defs = X_ok_def X_stream_failed_def X_rerun_def X_snapshot_close_failed_def
  X_upload_close_failed_def X_upload_failed_def X_tls_failed_def X_login_failed_def env_ok_def
  env_iam_def env_unset_def
  os_Getenv_def filepath_Base_def lastElement_def stripTrailingSlashes_def start_def

lemma example_success:
  "main X_ok env_ok (start files) =
     (0, \<lparr>fs = files(''/tmp/snap.out'' \<mapsto> ''SNAPSHOT''),
          handles = [\<lparr>hname = ''/tmp/snap.out'', hopen = False, hoffset = 8\<rparr>,
                     \<lparr>hname = ''/tmp/snap.out'', hopen = False, hoffset = 0\<rparr>],
          trace = [EvNewClient ''https://vault:8200'', EvSetToken ''s.abcdefghijklmnopqrstuvwx'',
                   EvOpenFile ''/tmp/snap.out'', EvRaftSnapshot 0, EvClose 0 None,
                   EvOpen ''/tmp/snap.out'', EvNewSession ''us-east-1'',
                   EvUpload ''backups'' ''nightly-snap.out'' ''SNAPSHOT'', EvClose 1 None,
                   Printf ''Vault Raft snapshot uploaded to, %s\<newline>''
                     [Str ''s3://backups/nightly-snap.out'']]\<rparr>)"
  by (simp add: main_pipeline example_defs
      path_success [where loc = "''s3://backups/nightly-snap.out''"])

lemma example_rerun:
  "main X_rerun env_ok (start files) =
     (0, \<lparr>fs = files(''/tmp/snap.out'' \<mapsto> ''NEW''),
          handles = [\<lparr>hname = ''/tmp/snap.out'', hopen = False, hoffset = 3\<rparr>,
                     \<lparr>hname = ''/tmp/snap.out'', hopen = False, hoffset = 0\<rparr>],
          trace = [EvNewClient ''https://vault:8200'', EvSetToken ''s.abcdefghijklmnopqrstuvwx'',
                   EvOpenFile ''/tmp/snap.out'', EvRaftSnapshot 0, EvClose 0 None,
                   EvOpen ''/tmp/snap.out'', EvNewSession ''us-east-1'',
                   EvUpload ''backups'' ''nightly-snap.out'' ''NEW'', EvClose 1 None,
                   Printf ''Vault Raft snapshot uploaded to, %s\<newline>''
                     [Str ''s3://backups/nightly-snap.out'']]\<rparr>)"
  by (simp add: main_pipeline example_defs
      path_success [where loc = "''s3://backups/nightly-snap.out''"])

lemma example_stream_failed:
  "main X_stream_failed env_ok (start files) =
     (1, \<lparr>fs = files(''/tmp/snap.out'' \<mapsto> ''SNA''),
          handles = [\<lparr>hname = ''/tmp/snap.out'', hopen = False, hoffset = 3\<rparr>],
          trace = [EvNewClient ''https://vault:8200'', EvSetToken ''s.abcdefghijklmnopqrstuvwx'',
                   EvOpenFile ''/tmp/snap.out'', EvRaftSnapshot 0, EvClose 0 None,
                   Println (Str ''Vault Raft snapshot invocation failed''),
                   Println (Err SnapshotStreamError),
                   EvClose 0 (Some (ResourceCloseError FileAlreadyClosed)),
                   Println (Str ''Vault raft snapshot file failed to close''),
                   Fatalln (Err (ResourceCloseError FileAlreadyClosed))]\<rparr>)"
  by (simp add: main_pipeline example_defs path_stream_failed)


lemma example_snapshot_close_failed:
  "main X_snapshot_close_failed env_ok (start files) =
     (1, \<lparr>fs = files(''/tmp/snap.out'' \<mapsto> ''SNAPSHOT''),
          handles = [\<lparr>hname = ''/tmp/snap.out'', hopen = False, hoffset = 8\<rparr>],
          trace = [EvNewClient ''https://vault:8200'', EvSetToken ''s.abcdefghijklmnopqrstuvwx'',
                   EvOpenFile ''/tmp/snap.out'', EvRaftSnapshot 0,
                   EvClose 0 (Some (ResourceCloseError OsCloseFailure)),
                   Println (Str ''Vault raft snapshot file failed to close''),
                   Fatalln (Err (ResourceCloseError OsCloseFailure))]\<rparr>)"
  by (simp add: main_pipeline example_defs path_snapshot_close_failed)

lemma example_upload_close_failed:
  "main X_upload_close_failed env_ok (start files) =
     (1, \<lparr>fs = files(''/tmp/snap.out'' \<mapsto> ''SNAPSHOT''),
          handles = [\<lparr>hname = ''/tmp/snap.out'', hopen = False, hoffset = 8\<rparr>,
                     \<lparr>hname = ''/tmp/snap.out'', hopen = False, hoffset = 0\<rparr>],
          trace = [EvNewClient ''https://vault:8200'', EvSetToken ''s.abcdefghijklmnopqrstuvwx'',
                   EvOpenFile ''/tmp/snap.out'', EvRaftSnapshot 0, EvClose 0 None,
                   EvOpen ''/tmp/snap.out'', EvNewSession ''us-east-1'',
                   EvUpload ''backups'' ''nightly-snap.out'' ''SNAPSHOT'',
                   EvClose 1 (Some (ResourceCloseError OsCloseFailure)),
                   Println (Str ''Vault raft snapshot file failed to close''),
                   Fatalln (Err (ResourceCloseError OsCloseFailure))]\<rparr>)"
  by (simp add: main_pipeline example_defs
      path_uploaded_close_failed [where loc = "''s3://backups/nightly-snap.out''"])

lemma example_upload_failed:
  "main X_upload_failed env_ok (start files) =
     (1, \<lparr>fs = files(''/tmp/snap.out'' \<mapsto> ''SNAPSHOT''),
          handles = [\<lparr>hname = ''/tmp/snap.out'', hopen = False, hoffset = 8\<rparr>,
                     \<lparr>hname = ''/tmp/snap.out'', hopen = False, hoffset = 0\<rparr>],
          trace = [EvNewClient ''https://vault:8200'', EvSetToken ''s.abcdefghijklmnopqrstuvwx'',
                   EvOpenFile ''/tmp/snap.out'', EvRaftSnapshot 0, EvClose 0 None,
                   EvOpen ''/tmp/snap.out'', EvNewSession ''us-east-1'',
                   EvUpload ''backups'' ''nightly-snap.out'' ''SNAPSHOT'',
                   Println (Str ''Vault backup failed to upload to S3 bucket backups''),
                   Println (Err UploadTransferError),
                   EvClose 1 None,
                   Fatalln (Str ''S3 upload failed'')]\<rparr>)"
  by (simp add: main_pipeline example_defs path_upload_failed)

section \<open>The two revisions\<close>

text \<open>
  \<^verbatim>\<open>src/main.go\<close> is the earlier revision. Its \<^verbatim>\<open>main\<close> does not parse
  \<^verbatim>\<open>VAULT_SKIP_VERIFY\<close> (there only the client library looks at the variable, when the
  client is built), and it knows no \<^verbatim>\<open>aws-iam\<close> credential: that string has seven bytes,
  so the token check refuses it. Both features exist in the revision with
  \<^verbatim>\<open>vaultClientConfig\<close> only, the one the module file's requirement of
  \<^verbatim>\<open>vault/api/auth/aws\<close> belongs to.
\<close>

lemma main_go_refuses_sentinel:
  "token cfg = ''aws-iam'' \<Longrightarrow> \<not> newClient_fails X env (vaultAddr cfg) \<Longrightarrow>
   vaultRaftSnapshot X env cfg w =
     Return (Inl InvalidCredentialError) (w\<lparr>trace := trace w @ [EvNewClient (vaultAddr cfg)]\<rparr>)"
  by (simp add: vaultRaftSnapshot_run)

lemma example_sentinel_main_go:
  "main X_ok env_iam (start files) =
     (1, \<lparr>fs = files, handles = [],
          trace = [EvNewClient ''https://vault:8200'',
                   Fatalln (Str ''Vault Raft Snapshot failed'')]\<rparr>)"
  by (simp add: main_pipeline example_defs)

lemma example_unset_main_go:
  "main X_ok env_unset (start files) =
     (0, \<lparr>fs = files(''/tmp/snap.out'' \<mapsto> ''SNAPSHOT''),
          handles = [\<lparr>hname = ''/tmp/snap.out'', hopen = False, hoffset = 8\<rparr>,
                     \<lparr>hname = ''/tmp/snap.out'', hopen = False, hoffset = 0\<rparr>],
          trace = [EvNewClient ''https://vault:8200'', EvSetToken ''s.abcdefghijklmnopqrstuvwx'',
                   EvOpenFile ''/tmp/snap.out'', EvRaftSnapshot 0, EvClose 0 None,
                   EvOpen ''/tmp/snap.out'', EvNewSession ''us-east-1'',
                   EvUpload ''backups'' ''nightly-snap.out'' ''SNAPSHOT'', EvClose 1 None,
                   Printf ''Vault Raft snapshot uploaded to, %s\<newline>''
                     [Str ''s3://backups/nightly-snap.out'']]\<rparr>)"
  by (simp add: main_pipeline example_defs
      path_success [where loc = "''s3://backups/nightly-snap.out''"])

lemma example_unset_later:
  "main2 X_ok env_unset (start files) =
     (1, \<lparr>fs = files, handles = [],
          trace = [Fatalln (Str ''Invalid boolean value for VAULT_SKIP_VERIFY'')]\<rparr>)"
  by (simp add: main2_pipeline example_defs strconv_ParseBool_def)

section \<open>The claims\<close>

text \<open>
  In the theorems below a run \<open>r\<close> is the exit status and final world of either revision's
  \<^verbatim>\<open>main\<close>, started with no open file and an empty trace on any file system.
\<close>

text \<open>
  C1. For every transfer configuration with prefix \<open>p\<close> and every staging path \<open>q\<close>, every
  upload call of a run uses the key \<open>p @ ''-'' @ filepath_Base q\<close>; no file handle is left
  open when the process ends; and a run that exits with status 0 has made the upload call
  with that key and the snapshot as its body, and leaves at \<open>q\<close> a file that holds the
  snapshot and whose handles are all closed. \<open>filepath_Base\<close> of a path that ends in a
  file name is that file name. The witness is the specification's example: path
  \<^verbatim>\<open>/tmp/snap.out\<close> and prefix \<^verbatim>\<open>nightly\<close> give the key \<^verbatim>\<open>nightly-snap.out\<close>.
\<close>

theorem upload_key_and_closed_file:
  assumes r: "r = main X env (start files) \<or> r = main2 X env (start files)"
  shows "(\<forall>b k body. EvUpload b k body \<in> set (trace (snd r)) \<longrightarrow>
            k = os_Getenv env ''S3_PREFIX'' @ ''-'' @
                filepath_Base (os_Getenv env ''VAULT_SNAPSHOT_PATH'')) \<and>
         (\<forall>h \<in> set (handles (snd r)). \<not> hopen h) \<and>
         (fst r = 0 \<longrightarrow>
            EvUpload (os_Getenv env ''S3_BUCKET'')
              (os_Getenv env ''S3_PREFIX'' @ ''-'' @
               filepath_Base (os_Getenv env ''VAULT_SNAPSHOT_PATH'')) (fst (raft_stream X))
              \<in> set (trace (snd r)) \<and>
            fs (snd r) (os_Getenv env ''VAULT_SNAPSHOT_PATH'') = Some (fst (raft_stream X)) \<and>
            handles (snd r) \<noteq> [] \<and>
            (\<forall>h \<in> set (handles (snd r)). hname h = os_Getenv env ''VAULT_SNAPSHOT_PATH'')) \<and>
         (\<forall>dir name. name \<noteq> [] \<and> CHR ''/'' \<notin> set name \<longrightarrow>
            filepath_Base (dir @ ''/'' @ name) = name \<and> filepath_Base name = name)"
proof -
  have run:
    "(\<forall>b k body. EvUpload b k body \<in> set (trace (snd r)) \<longrightarrow>
            k = os_Getenv env ''S3_PREFIX'' @ ''-'' @
                filepath_Base (os_Getenv env ''VAULT_SNAPSHOT_PATH'')) \<and>
         (\<forall>h \<in> set (handles (snd r)). \<not> hopen h) \<and>
         (fst r = 0 \<longrightarrow>
            EvUpload (os_Getenv env ''S3_BUCKET'')
              (os_Getenv env ''S3_PREFIX'' @ ''-'' @
               filepath_Base (os_Getenv env ''VAULT_SNAPSHOT_PATH'')) (fst (raft_stream X))
              \<in> set (trace (snd r)) \<and>
            fs (snd r) (os_Getenv env ''VAULT_SNAPSHOT_PATH'') = Some (fst (raft_stream X)) \<and>
            handles (snd r) \<noteq> [] \<and>
            (\<forall>h \<in> set (handles (snd r)). hname h = os_Getenv env ''VAULT_SNAPSHOT_PATH''))"
    using r by (cases rule: run_cases) (auto dest: setup_mem)
  have base: "\<forall>dir name. name \<noteq> [] \<and> CHR ''/'' \<notin> set name \<longrightarrow>
            filepath_Base (dir @ ''/'' @ name) = name \<and> filepath_Base name = name"
    using filepath_Base_file by blast
  from run base show ?thesis
    by blast
qed

theorem upload_key_and_closed_file_witness:
  "fst (main X_ok env_ok (start Map.empty)) = 0 \<and>
   EvUpload ''backups'' ''nightly-snap.out'' ''SNAPSHOT''
     \<in> set (trace (snd (main X_ok env_ok (start Map.empty)))) \<and>
   os_Getenv env_ok ''S3_PREFIX'' @ ''-'' @ filepath_Base (os_Getenv env_ok ''VAULT_SNAPSHOT_PATH'')
     = ''nightly-snap.out'' \<and>
   fs (snd (main X_ok env_ok (start Map.empty))) ''/tmp/snap.out'' = Some ''SNAPSHOT'' \<and>
   map hname (handles (snd (main X_ok env_ok (start Map.empty))))
     = [''/tmp/snap.out'', ''/tmp/snap.out''] \<and>
   map hopen (handles (snd (main X_ok env_ok (start Map.empty)))) = [False, False]"
proof -
  let ?r = "main X_ok env_ok (start Map.empty)"
  have ok: "fst ?r = 0"
    by (simp add: example_success)
  have called: "EvUpload ''backups'' ''nightly-snap.out'' ''SNAPSHOT'' \<in> set (trace (snd ?r))"
    by (simp add: example_success)
  have handles: "map hname (handles (snd ?r)) = [''/tmp/snap.out'', ''/tmp/snap.out'']"
    "map hopen (handles (snd ?r)) = [False, False]"
    by (simp_all add: example_success)
  have path: "os_Getenv env_ok ''VAULT_SNAPSHOT_PATH'' = ''/tmp/snap.out''"
    and payload: "fst (raft_stream X_ok) = ''SNAPSHOT''"
    by (simp_all add: env_ok_def os_Getenv_def X_ok_def)
  from upload_key_and_closed_file [of ?r X_ok env_ok Map.empty] called
  have key: "''nightly-snap.out'' =
             os_Getenv env_ok ''S3_PREFIX'' @ ''-'' @
             filepath_Base (os_Getenv env_ok ''VAULT_SNAPSHOT_PATH'')"
    by blast
  from upload_key_and_closed_file [of ?r X_ok env_ok Map.empty] ok
  have "fs (snd ?r) (os_Getenv env_ok ''VAULT_SNAPSHOT_PATH'') = Some (fst (raft_stream X_ok))"
    by blast
  then have content: "fs (snd ?r) ''/tmp/snap.out'' = Some ''SNAPSHOT''"
    by (simp only: path payload)
  from ok called key [symmetric] content handles show ?thesis
    by (simp only: simp_thms)
qed

text \<open>
  C2. For a credential that is not \<^verbatim>\<open>aws-iam\<close>, once the client handle exists: a
  credential whose length is not 26 makes the authentication fail with
  \<open>InvalidCredentialError\<close>, the trace holding the client's construction and nothing else;
  a credential of length 26 is set as the token directly after the client's construction.
  Whether or not the client could be built, such a run of the authentication makes no
  network call and, when the length is not 26, returns no client. Length is Go's
  \<^verbatim>\<open>len\<close>, the number of bytes of the string. The first two conjuncts are
  \<^verbatim>\<open>vaultRaftSnapshot\<close> of \<^verbatim>\<open>src/main.go\<close> (which never treats \<^verbatim>\<open>aws-iam\<close> specially), the
  third is \<^verbatim>\<open>vaultClientConfig\<close> of the later revision.
\<close>

theorem static_token_check:
  fixes cfg :: VaultConfig and cfg2 :: VaultConfig2
  shows
    "(\<not> newClient_fails X env (vaultAddr cfg) \<longrightarrow>
        (length (token cfg) \<noteq> 26 \<longrightarrow>
           vaultRaftSnapshot X env cfg w =
             Return (Inl InvalidCredentialError)
               (w\<lparr>trace := trace w @ [EvNewClient (vaultAddr cfg)]\<rparr>)) \<and>
        (length (token cfg) = 26 \<longrightarrow>
           (\<exists>rest. trace (world_of (vaultRaftSnapshot X env cfg w)) =
                     trace w @ [EvNewClient (vaultAddr cfg), EvSetToken (token cfg)] @ rest))) \<and>
     (length (token cfg) \<noteq> 26 \<longrightarrow>
        (\<forall>f. result_of (vaultRaftSnapshot X env cfg w) \<noteq> Some (Inr f)) \<and>
        filter is_network (trace (world_of (vaultRaftSnapshot X env cfg w))) =
          filter is_network (trace w)) \<and>
     (token cfg2 \<noteq> ''aws-iam'' \<longrightarrow>
        filter is_network (trace (snd (vaultClientConfig X env cfg2 w))) =
          filter is_network (trace w) \<and>
        (length (token cfg2) \<noteq> 26 \<longrightarrow> (\<forall>c. fst (vaultClientConfig X env cfg2 w) \<noteq> Inr c)) \<and>
        (\<not> configureTLS_fails X (insecure cfg2) \<and> \<not> newClient_fails X env (vaultAddr cfg2) \<longrightarrow>
           (length (token cfg2) \<noteq> 26 \<longrightarrow>
              vaultClientConfig X env cfg2 w =
                (Inl InvalidCredentialError,
                 w\<lparr>trace := trace w @
                      [EvConfigureTLS (insecure cfg2), EvNewClient (vaultAddr cfg2)]\<rparr>)) \<and>
           (length (token cfg2) = 26 \<longrightarrow>
              vaultClientConfig X env cfg2 w =
                (Inr \<lparr>address = vaultAddr cfg2, clientToken = Some (token cfg2)\<rparr>,
                 w\<lparr>trace := trace w @
                      [EvConfigureTLS (insecure cfg2), EvNewClient (vaultAddr cfg2),
                       EvSetToken (token cfg2)]\<rparr>))))"
proof -
  have a: "vaultRaftSnapshot X env cfg w =
             Return (Inl InvalidCredentialError)
               (w\<lparr>trace := trace w @ [EvNewClient (vaultAddr cfg)]\<rparr>)"
    if "\<not> newClient_fails X env (vaultAddr cfg)" "length (token cfg) \<noteq> 26"
    using that by (simp add: vaultRaftSnapshot_run)
  have b: "\<exists>rest. trace (world_of (vaultRaftSnapshot X env cfg w)) =
                     trace w @ [EvNewClient (vaultAddr cfg), EvSetToken (token cfg)] @ rest"
    if "\<not> newClient_fails X env (vaultAddr cfg)" "length (token cfg) = 26"
    using that by (simp add: vaultRaftSnapshot_run snapshot_outcome_world snapshot_world_trace)
  have c: "(\<forall>f. result_of (vaultRaftSnapshot X env cfg w) \<noteq> Some (Inr f)) \<and>
        filter is_network (trace (world_of (vaultRaftSnapshot X env cfg w))) =
          filter is_network (trace w)"
    if "length (token cfg) \<noteq> 26"
    using that by (simp add: vaultRaftSnapshot_run)
  have d: "filter is_network (trace (snd (vaultClientConfig X env cfg2 w))) =
             filter is_network (trace w)"
    if "token cfg2 \<noteq> ''aws-iam''"
    using that by (simp add: vaultClientConfig_run client_events_network)
  have e: "\<forall>c. fst (vaultClientConfig X env cfg2 w) \<noteq> Inr c"
    if "token cfg2 \<noteq> ''aws-iam''" "length (token cfg2) \<noteq> 26"
    using that by (simp add: vaultClientConfig_run client_result_def)
  have f: "vaultClientConfig X env cfg2 w =
                (Inl InvalidCredentialError,
                 w\<lparr>trace := trace w @
                      [EvConfigureTLS (insecure cfg2), EvNewClient (vaultAddr cfg2)]\<rparr>)"
    if "token cfg2 \<noteq> ''aws-iam''" "length (token cfg2) \<noteq> 26"
       "\<not> configureTLS_fails X (insecure cfg2)" "\<not> newClient_fails X env (vaultAddr cfg2)"
    using that by (simp add: vaultClientConfig_run client_result_def client_events_def)
  have g: "vaultClientConfig X env cfg2 w =
                (Inr \<lparr>address = vaultAddr cfg2, clientToken = Some (token cfg2)\<rparr>,
                 w\<lparr>trace := trace w @
                      [EvConfigureTLS (insecure cfg2), EvNewClient (vaultAddr cfg2),
                       EvSetToken (token cfg2)]\<rparr>)"
    if "token cfg2 \<noteq> ''aws-iam''" "length (token cfg2) = 26"
       "\<not> configureTLS_fails X (insecure cfg2)" "\<not> newClient_fails X env (vaultAddr cfg2)"
    using that by (simp add: vaultClientConfig_run client_result_def client_events_def)
  show ?thesis
    using a b c d e f g by blast
qed

theorem static_token_check_witness:
  "vaultRaftSnapshot X_ok env_ok \<lparr>vaultAddr = ''https://vault:8200'', token = ''short'',
                           snapshotPath = ''/tmp/snap.out''\<rparr> (start Map.empty) =
     Return (Inl InvalidCredentialError)
       (start Map.empty\<lparr>trace := trace (start Map.empty) @ [EvNewClient ''https://vault:8200'']\<rparr>) \<and>
   vaultClientConfig X_ok env_ok \<lparr>vaultAddr = ''https://vault:8200'', token = ''short'',
                           snapshotPath = ''/tmp/snap.out'', insecure = False\<rparr> (start Map.empty) =
     (Inl InvalidCredentialError,
      start Map.empty\<lparr>trace := trace (start Map.empty) @
         [EvConfigureTLS False, EvNewClient ''https://vault:8200'']\<rparr>) \<and>
   vaultClientConfig X_ok env_ok \<lparr>vaultAddr = ''https://vault:8200'',
                           token = ''s.abcdefghijklmnopqrstuvwx'',
                           snapshotPath = ''/tmp/snap.out'', insecure = False\<rparr> (start Map.empty) =
     (Inr \<lparr>address = ''https://vault:8200'', clientToken = Some ''s.abcdefghijklmnopqrstuvwx''\<rparr>,
      start Map.empty\<lparr>trace := trace (start Map.empty) @
         [EvConfigureTLS False, EvNewClient ''https://vault:8200'',
          EvSetToken ''s.abcdefghijklmnopqrstuvwx'']\<rparr>)"
  using
    static_token_check [of X_ok env_ok
      "\<lparr>vaultAddr = ''https://vault:8200'', token = ''short'', snapshotPath = ''/tmp/snap.out''\<rparr>"
      "start Map.empty"
      "\<lparr>vaultAddr = ''https://vault:8200'', token = ''short'',
        snapshotPath = ''/tmp/snap.out'', insecure = False\<rparr>"]
    static_token_check [of X_ok env_ok
      "\<lparr>vaultAddr = ''https://vault:8200'', token = ''short'', snapshotPath = ''/tmp/snap.out''\<rparr>"
      "start Map.empty"
      "\<lparr>vaultAddr = ''https://vault:8200'', token = ''s.abcdefghijklmnopqrstuvwx'',
        snapshotPath = ''/tmp/snap.out'', insecure = False\<rparr>"]
  by (simp add: X_ok_def)

text \<open>
  C3 (as amended: the claim holds of the revision with \<^verbatim>\<open>vaultClientConfig\<close>, not of
  \<^verbatim>\<open>src/main.go\<close>). For the credential \<^verbatim>\<open>aws-iam\<close> (which has not 26 bytes),
  \<^verbatim>\<open>vaultClientConfig\<close> never answers \<open>InvalidCredentialError\<close>: once the client handle
  exists it initialises the identity provider and, if that succeeds, calls the login.
  When the provider cannot be initialised, the login call fails or the login returns no
  auth info, the function returns a failure (\<open>AuthMethodError\<close>, one cause for each of the
  three) and never a client; a successful login returns the client with the session's
  token. In \<^verbatim>\<open>src/main.go\<close> the same credential meets the 26-byte check and is refused
  with \<open>InvalidCredentialError\<close>, no provider or login being called.
\<close>

theorem sentinel_login:
  fixes cfg :: VaultConfig2 and early :: VaultConfig
  assumes sentinel: "token cfg = ''aws-iam''"
  shows
    "(\<not> configureTLS_fails X (insecure cfg) \<and> \<not> newClient_fails X env (vaultAddr cfg) \<longrightarrow>
        vaultClientConfig X env cfg w =
          (if newAWSAuth_fails X then
             (Inl (AuthMethodError ProviderInit),
              w\<lparr>trace := trace w @ [EvConfigureTLS (insecure cfg), EvNewClient (vaultAddr cfg),
                                     EvNewAWSAuth]\<rparr>)
           else
             (case login_answer X of
                LoginErr \<Rightarrow> Inl (AuthMethodError LoginCall)
              | LoginNil \<Rightarrow> Inl (AuthMethodError NoAuthInfo)
              | LoginOk t \<Rightarrow> Inr \<lparr>address = vaultAddr cfg, clientToken = Some t\<rparr>,
              w\<lparr>trace := trace w @ [EvConfigureTLS (insecure cfg), EvNewClient (vaultAddr cfg),
                                     EvNewAWSAuth, EvLogin]\<rparr>))) \<and>
     (newAWSAuth_fails X \<or> login_answer X = LoginErr \<or> login_answer X = LoginNil \<longrightarrow>
        (\<forall>c. fst (vaultClientConfig X env cfg w) \<noteq> Inr c)) \<and>
     fst (vaultClientConfig X env cfg w) \<noteq> Inl InvalidCredentialError \<and>
     length (token cfg) \<noteq> 26 \<and>
     (token early = ''aws-iam'' \<and> \<not> newClient_fails X env (vaultAddr early) \<longrightarrow>
        vaultRaftSnapshot X env early w =
          Return (Inl InvalidCredentialError)
            (w\<lparr>trace := trace w @ [EvNewClient (vaultAddr early)]\<rparr>))"
proof -
  have a: "vaultClientConfig X env cfg w =
          (if newAWSAuth_fails X then
             (Inl (AuthMethodError ProviderInit),
              w\<lparr>trace := trace w @ [EvConfigureTLS (insecure cfg), EvNewClient (vaultAddr cfg),
                                     EvNewAWSAuth]\<rparr>)
           else
             (case login_answer X of
                LoginErr \<Rightarrow> Inl (AuthMethodError LoginCall)
              | LoginNil \<Rightarrow> Inl (AuthMethodError NoAuthInfo)
              | LoginOk t \<Rightarrow> Inr \<lparr>address = vaultAddr cfg, clientToken = Some t\<rparr>,
              w\<lparr>trace := trace w @ [EvConfigureTLS (insecure cfg), EvNewClient (vaultAddr cfg),
                                     EvNewAWSAuth, EvLogin]\<rparr>))"
    if "\<not> configureTLS_fails X (insecure cfg)" "\<not> newClient_fails X env (vaultAddr cfg)"
    using that sentinel
    by (simp add: vaultClientConfig_run client_result_def client_events_def)
  have b: "\<forall>c. fst (vaultClientConfig X env cfg w) \<noteq> Inr c"
    if "newAWSAuth_fails X \<or> login_answer X = LoginErr \<or> login_answer X = LoginNil"
    using that sentinel
    by (auto simp add: vaultClientConfig_run client_result_def)
  have c: "fst (vaultClientConfig X env cfg w) \<noteq> Inl InvalidCredentialError"
    using sentinel
    by (simp add: vaultClientConfig_run client_result_def split: login_answer.split)
  have e: "length (token cfg) \<noteq> 26"
    using sentinel by simp
  have f: "vaultRaftSnapshot X env early w =
          Return (Inl InvalidCredentialError)
            (w\<lparr>trace := trace w @ [EvNewClient (vaultAddr early)]\<rparr>)"
    if "token early = ''aws-iam''" "\<not> newClient_fails X env (vaultAddr early)"
    using that by (rule main_go_refuses_sentinel)
  show ?thesis
    using a b c e f by blast
qed

theorem sentinel_login_witness:
  "vaultClientConfig X_ok env_iam \<lparr>vaultAddr = ''https://vault:8200'', token = ''aws-iam'',
                           snapshotPath = ''/tmp/snap.out'', insecure = False\<rparr> (start Map.empty) =
     (Inr \<lparr>address = ''https://vault:8200'', clientToken = Some ''s.session''\<rparr>,
      start Map.empty\<lparr>trace := trace (start Map.empty) @
         [EvConfigureTLS False, EvNewClient ''https://vault:8200'', EvNewAWSAuth, EvLogin]\<rparr>) \<and>
   vaultClientConfig X_login_failed env_iam
       \<lparr>vaultAddr = ''https://vault:8200'', token = ''aws-iam'',
        snapshotPath = ''/tmp/snap.out'', insecure = False\<rparr> (start Map.empty) =
     (Inl (AuthMethodError LoginCall),
      start Map.empty\<lparr>trace := trace (start Map.empty) @
         [EvConfigureTLS False, EvNewClient ''https://vault:8200'', EvNewAWSAuth, EvLogin]\<rparr>) \<and>
   vaultRaftSnapshot X_ok env_iam
       \<lparr>vaultAddr = ''https://vault:8200'', token = ''aws-iam'',
        snapshotPath = ''/tmp/snap.out''\<rparr> (start Map.empty) =
     Return (Inl InvalidCredentialError)
       (start Map.empty\<lparr>trace := trace (start Map.empty) @
          [EvNewClient ''https://vault:8200'']\<rparr>)"
  using
    sentinel_login [where cfg = "\<lparr>vaultAddr = ''https://vault:8200'', token = ''aws-iam'',
                         snapshotPath = ''/tmp/snap.out'', insecure = False\<rparr>"
                    and early = "\<lparr>vaultAddr = ''https://vault:8200'', token = ''aws-iam'',
                         snapshotPath = ''/tmp/snap.out''\<rparr>"
                    and X = X_ok and env = env_iam and w = "start Map.empty"]
    sentinel_login [where cfg = "\<lparr>vaultAddr = ''https://vault:8200'', token = ''aws-iam'',
                         snapshotPath = ''/tmp/snap.out'', insecure = False\<rparr>"
                    and X = X_login_failed and env = env_iam and w = "start Map.empty"]
  by (simp add: X_ok_def X_login_failed_def)

text \<open>
  The claim as first stated, for every function that authenticates, fails at
  \<^verbatim>\<open>src/main.go\<close>: with \<^verbatim>\<open>VAULT_TOKEN=aws-iam\<close> and collaborators that all answer well,
  its \<^verbatim>\<open>vaultRaftSnapshot\<close> returns \<open>InvalidCredentialError\<close> from the 26-byte check, and
  the run ends with status 1 having called neither the identity provider nor a login.
\<close>

theorem sentinel_login_counterexample:
  "vaultRaftSnapshot X_ok env_iam
     \<lparr>vaultAddr = ''https://vault:8200'', token = ''aws-iam'', snapshotPath = ''/tmp/snap.out''\<rparr>
     (start Map.empty) =
     Return (Inl InvalidCredentialError)
       \<lparr>fs = Map.empty, handles = [], trace = [EvNewClient ''https://vault:8200'']\<rparr> \<and>
   token \<lparr>vaultAddr = ''https://vault:8200'', token = ''aws-iam'',
          snapshotPath = ''/tmp/snap.out''\<rparr> = os_Getenv env_iam ''VAULT_TOKEN'' \<and>
   main X_ok env_iam (start Map.empty) =
     (1, \<lparr>fs = Map.empty, handles = [],
          trace = [EvNewClient ''https://vault:8200'',
                   Fatalln (Str ''Vault Raft Snapshot failed'')]\<rparr>) \<and>
   EvNewAWSAuth \<notin> set (trace (snd (main X_ok env_iam (start Map.empty)))) \<and>
   EvLogin \<notin> set (trace (snd (main X_ok env_iam (start Map.empty))))"
proof -
  have fn: "vaultRaftSnapshot X_ok env_iam
     \<lparr>vaultAddr = ''https://vault:8200'', token = ''aws-iam'', snapshotPath = ''/tmp/snap.out''\<rparr>
     (start Map.empty) =
     Return (Inl InvalidCredentialError)
       \<lparr>fs = Map.empty, handles = [], trace = [EvNewClient ''https://vault:8200'']\<rparr>"
    by (simp add: vaultRaftSnapshot_run X_ok_def start_def)
  have tok: "token \<lparr>vaultAddr = ''https://vault:8200'', token = ''aws-iam'',
          snapshotPath = ''/tmp/snap.out''\<rparr> = os_Getenv env_iam ''VAULT_TOKEN''"
    by (simp add: env_iam_def os_Getenv_def)
  have run: "main X_ok env_iam (start Map.empty) =
     (1, \<lparr>fs = Map.empty, handles = [],
          trace = [EvNewClient ''https://vault:8200'',
                   Fatalln (Str ''Vault Raft Snapshot failed'')]\<rparr>)"
    by (rule example_sentinel_main_go)
  have none: "EvNewAWSAuth \<notin> set (trace (snd (main X_ok env_iam (start Map.empty))))"
    "EvLogin \<notin> set (trace (snd (main X_ok env_iam (start Map.empty))))"
    by (simp_all add: example_sentinel_main_go)
  from fn tok run none show ?thesis
    by (simp only: simp_thms)
qed

text \<open>
  C4. When the snapshot function (of either revision) returns a file to its caller, the
  file at the staging path holds exactly the streamed snapshot, the returned handle bears
  the staging path and is closed, and the stream call did not fail. When the stream call
  fails after the file was opened, the function does not return: the process exits with
  status 1 inside it, with the handle closed; and in no run whose stream would fail is the
  file opened for upload or any upload call made.
\<close>

theorem snapshot_file_closed_and_complete:
  fixes cfg :: VaultConfig
  shows
    "(vaultRaftSnapshot2 X c p w = Return (Inr f) w' \<longrightarrow>
        fs w' p = Some (fst (raft_stream X)) \<and> f < length (handles w') \<and>
        file_Name f w' = p \<and> \<not> is_open f w' \<and> \<not> snd (raft_stream X)) \<and>
     (vaultRaftSnapshot X env cfg w = Return (Inr f) w' \<longrightarrow>
        fs w' (snapshotPath cfg) = Some (fst (raft_stream X)) \<and> f < length (handles w') \<and>
        file_Name f w' = snapshotPath cfg \<and> \<not> is_open f w' \<and> \<not> snd (raft_stream X)) \<and>
     (snd (raft_stream X) \<and> \<not> openFile_fails X p \<longrightarrow>
        (\<exists>w1. vaultRaftSnapshot2 X c p w = Exit 1 w1 \<and>
               length (handles w) < length (handles w1) \<and>
               file_Name (length (handles w)) w1 = p \<and>
               \<not> is_open (length (handles w)) w1)) \<and>
     (snd (raft_stream X) \<and> \<not> newClient_fails X env (vaultAddr cfg) \<and> length (token cfg) = 26 \<and>
      \<not> openFile_fails X (snapshotPath cfg) \<longrightarrow>
        (\<exists>w1. vaultRaftSnapshot X env cfg w = Exit 1 w1 \<and>
               length (handles w) < length (handles w1) \<and>
               file_Name (length (handles w)) w1 = snapshotPath cfg \<and>
               \<not> is_open (length (handles w)) w1)) \<and>
     (snd (raft_stream X) \<longrightarrow>
        (\<forall>r. r = main X env (start files) \<or> r = main2 X env (start files) \<longrightarrow>
             (\<forall>path. EvOpen path \<notin> set (trace (snd r))) \<and>
             filter is_upload (trace (snd r)) = []))"
proof -
  have a: "fs w' p = Some (fst (raft_stream X)) \<and> f < length (handles w') \<and>
        file_Name f w' = p \<and> \<not> is_open f w' \<and> \<not> snd (raft_stream X)"
    if "snapshot_outcome X p w0 = Return (Inr f) w'" for p w0
    using that
    by (auto simp add: snapshot_outcome_def snapshot_world_def file_Name_def is_open_def
        split: if_splits)
  have b: "\<exists>w1. snapshot_outcome X p w0 = Exit 1 w1 \<and>
               length (handles w0) < length (handles w1) \<and>
               file_Name (length (handles w0)) w1 = p \<and>
               \<not> is_open (length (handles w0)) w1"
    if "snd (raft_stream X)" "\<not> openFile_fails X p" for p w0
    using that
    by (simp add: snapshot_outcome_def snapshot_world_def file_Name_def is_open_def)
  have a2: "fs w' (snapshotPath cfg) = Some (fst (raft_stream X)) \<and> f < length (handles w') \<and>
        file_Name f w' = snapshotPath cfg \<and> \<not> is_open f w' \<and> \<not> snd (raft_stream X)"
    if "vaultRaftSnapshot X env cfg w = Return (Inr f) w'"
    using that a [of "snapshotPath cfg"]
    by (simp add: vaultRaftSnapshot_run split: if_splits)
  have b2: "\<exists>w1. vaultRaftSnapshot X env cfg w = Exit 1 w1 \<and>
               length (handles w) < length (handles w1) \<and>
               file_Name (length (handles w)) w1 = snapshotPath cfg \<and>
               \<not> is_open (length (handles w)) w1"
    if "snd (raft_stream X)" "\<not> newClient_fails X env (vaultAddr cfg)" "length (token cfg) = 26"
       "\<not> openFile_fails X (snapshotPath cfg)"
    using that
      b [of "snapshotPath cfg"
           "w\<lparr>trace := trace w @ [EvNewClient (vaultAddr cfg), EvSetToken (token cfg)]\<rparr>"]
    by (simp add: vaultRaftSnapshot_run)
  have c: "(\<forall>path. EvOpen path \<notin> set (trace (snd r))) \<and> filter is_upload (trace (snd r)) = []"
    if "snd (raft_stream X)" "r = main X env (start files) \<or> r = main2 X env (start files)" for r
    using that(2) that(1)
    by (cases rule: run_cases) (auto simp add: setup_no_upload dest: setup_mem)
  show ?thesis
    using a [of p w] b [of p w] a2 b2 c
    unfolding vaultRaftSnapshot2_run by blast
qed

theorem snapshot_file_closed_and_complete_witness:
  "vaultRaftSnapshot2 X_ok \<lparr>address = ''https://vault:8200'', clientToken = Some ''s.abcdefghijklmnopqrstuvwx''\<rparr>
     ''/tmp/snap.out'' (start [''/tmp/snap.out'' \<mapsto> ''AN OLDER SNAPSHOT'']) =
     Return (Inr 0)
       \<lparr>fs = [''/tmp/snap.out'' \<mapsto> ''SNAPSHOT''],
        handles = [\<lparr>hname = ''/tmp/snap.out'', hopen = False, hoffset = 8\<rparr>],
        trace = [EvOpenFile ''/tmp/snap.out'', EvRaftSnapshot 0, EvClose 0 None]\<rparr> \<and>
   \<not> is_open 0
       \<lparr>fs = [''/tmp/snap.out'' \<mapsto> ''SNAPSHOT''],
        handles = [\<lparr>hname = ''/tmp/snap.out'', hopen = False, hoffset = 8\<rparr>],
        trace = [EvOpenFile ''/tmp/snap.out'', EvRaftSnapshot 0, EvClose 0 None]\<rparr> \<and>
   snd (raft_stream X_stream_failed) \<and>
   \<not> openFile_fails X_stream_failed ''/tmp/snap.out'' \<and>
   (\<exists>w1. vaultRaftSnapshot2 X_stream_failed
            \<lparr>address = ''https://vault:8200'', clientToken = Some ''s.abcdefghijklmnopqrstuvwx''\<rparr>
            ''/tmp/snap.out'' (start Map.empty) = Exit 1 w1 \<and>
          \<not> is_open 0 w1) \<and>
   filter is_upload
     (trace (snd (main X_stream_failed env_ok (start Map.empty)))) = []"
proof -
  let ?c = "\<lparr>address = ''https://vault:8200'', clientToken = Some ''s.abcdefghijklmnopqrstuvwx''\<rparr>"
  let ?w = "\<lparr>fs = [''/tmp/snap.out'' \<mapsto> ''SNAPSHOT''],
             handles = [\<lparr>hname = ''/tmp/snap.out'', hopen = False, hoffset = 8\<rparr>],
             trace = [EvOpenFile ''/tmp/snap.out'', EvRaftSnapshot 0, EvClose 0 None]\<rparr>"
  let ?X = X_stream_failed
  have run: "vaultRaftSnapshot2 X_ok ?c ''/tmp/snap.out''
               (start [''/tmp/snap.out'' \<mapsto> ''AN OLDER SNAPSHOT'']) = Return (Inr 0) ?w"
    by (simp add: vaultRaftSnapshot2_run run_defs X_ok_def start_def)
  have hyp: "snd (raft_stream ?X) \<and> \<not> openFile_fails ?X ''/tmp/snap.out''"
    by (simp add: X_ok_def X_stream_failed_def)
  from snapshot_file_closed_and_complete
         [where X = X_ok and c = ?c and p = "''/tmp/snap.out''"
            and w = "start [''/tmp/snap.out'' \<mapsto> ''AN OLDER SNAPSHOT'']" and f = 0 and w' = ?w]
       run
  have closed: "\<not> is_open 0 ?w"
    by blast
  from snapshot_file_closed_and_complete
         [where X = ?X and c = ?c and p = "''/tmp/snap.out''" and w = "start Map.empty"
            and env = env_ok and files = Map.empty] hyp
  have failed: "(\<exists>w1. vaultRaftSnapshot2 ?X ?c ''/tmp/snap.out'' (start Map.empty) = Exit 1 w1 \<and>
                      \<not> is_open (length (handles (start Map.empty))) w1) \<and>
                filter is_upload (trace (snd (main ?X env_ok (start Map.empty)))) = []"
    by blast
  then have "(\<exists>w1. vaultRaftSnapshot2 ?X ?c ''/tmp/snap.out'' (start Map.empty) = Exit 1 w1 \<and>
                      \<not> is_open 0 w1) \<and>
                filter is_upload (trace (snd (main ?X env_ok (start Map.empty)))) = []"
    by (simp add: start_def)
  with run closed hyp show ?thesis
    by (simp only: simp_thms)
qed

text \<open>
  C5. In every run in which the snapshot stream call is made and fails, the process exits
  with status 1, the trace holds no upload call (their number is 0), the file is never
  opened for reading and no storage session is created, the staging file's handle has
  been closed, and the last thing the run does is report a fatal error.
\<close>

theorem no_upload_after_stream_failure:
  assumes r: "r = main X env (start files) \<or> r = main2 X env (start files)"
    and failed: "snd (raft_stream X)"
    and called: "EvRaftSnapshot f \<in> set (trace (snd r))"
  shows "fst r = 1 \<and>
         length (filter is_upload (trace (snd r))) = 0 \<and>
         (\<forall>p. EvOpen p \<notin> set (trace (snd r))) \<and>
         (\<forall>rg. EvNewSession rg \<notin> set (trace (snd r))) \<and>
         EvClose f (if close_fails X f then Some (ResourceCloseError OsCloseFailure) else None)
           \<in> set (trace (snd r)) \<and>
         f < length (handles (snd r)) \<and> \<not> is_open f (snd r) \<and>
         (\<exists>a. last (trace (snd r)) = Fatalln a)"
  using r failed called
  by (cases rule: run_cases) (auto simp add: setup_no_upload is_open_def dest: setup_mem)

theorem no_upload_after_stream_failure_witness:
  "snd (raft_stream X_stream_failed) \<and>
   EvRaftSnapshot 0 \<in> set (trace (snd (main X_stream_failed env_ok
                                          (start Map.empty)))) \<and>
   fst (main X_stream_failed env_ok (start Map.empty)) = 1 \<and>
   length (filter is_upload (trace (snd (main X_stream_failed env_ok
                                          (start Map.empty))))) = 0 \<and>
   \<not> is_open 0 (snd (main X_stream_failed env_ok (start Map.empty)))"
proof -
  have failed: "snd (raft_stream X_stream_failed)"
    by (simp add: X_stream_failed_def)
  have called: "EvRaftSnapshot 0 \<in> set (trace (snd (main X_stream_failed env_ok (start Map.empty))))"
    by (simp add: example_stream_failed)
  from no_upload_after_stream_failure
         [of "main X_stream_failed env_ok (start Map.empty)" X_stream_failed env_ok Map.empty 0]
       failed called
  have "fst (main X_stream_failed env_ok (start Map.empty)) = 1 \<and>
        length (filter is_upload (trace (snd (main X_stream_failed env_ok (start Map.empty))))) = 0 \<and>
        \<not> is_open 0 (snd (main X_stream_failed env_ok (start Map.empty)))"
    by blast
  with failed called show ?thesis
    by (simp only: simp_thms)
qed

text \<open>
  C6. Opening the staging file for the snapshot leaves it empty, whatever it held. So
  when a run with status 0 is followed, on the file system it left, by a second run with
  status 0 on the same environment, the file holds the first snapshot after the first run
  and exactly the second snapshot after the second: its size is the size of the newest
  snapshot.
\<close>

theorem rerun_truncates:
  assumes r1: "r1 = main X1 env (start files) \<or> r1 = main2 X1 env (start files)"
    and ok1: "fst r1 = 0"
    and r2: "r2 = main X2 env (start (fs (snd r1))) \<or> r2 = main2 X2 env (start (fs (snd r1)))"
    and ok2: "fst r2 = 0"
  shows "fs (snd r1) (os_Getenv env ''VAULT_SNAPSHOT_PATH'') = Some (fst (raft_stream X1)) \<and>
         fs (snd r2) (os_Getenv env ''VAULT_SNAPSHOT_PATH'') = Some (fst (raft_stream X2)) \<and>
         length (content_of (snd r2) (os_Getenv env ''VAULT_SNAPSHOT_PATH''))
           = length (fst (raft_stream X2)) \<and>
         (\<forall>w p. \<not> openFile_fails X2 p \<longrightarrow> fs (snd (os_OpenFile X2 p w)) p = Some [])"
proof -
  have one: "fs (snd r) (os_Getenv env ''VAULT_SNAPSHOT_PATH'') = Some (fst (raft_stream X))"
    if "r = main X env (start fs0) \<or> r = main2 X env (start fs0)" "fst r = 0" for r X fs0
    using that by (cases rule: run_cases) auto
  have trunc: "fs (snd (os_OpenFile X2 p w)) p = Some []" if "\<not> openFile_fails X2 p" for w p
    using that by (simp add: os_OpenFile_def emit_def)
  from one [OF r1 ok1] one [OF r2 ok2] trunc show ?thesis
    by (simp add: content_of_def)
qed

theorem rerun_truncates_witness:
  "fst (main X_ok env_ok (start Map.empty)) = 0 \<and>
   fst (main X_rerun env_ok
          (start (fs (snd (main X_ok env_ok (start Map.empty)))))) = 0 \<and>
   fs (snd (main X_ok env_ok (start Map.empty))) ''/tmp/snap.out'' = Some ''SNAPSHOT'' \<and>
   fs (snd (main X_rerun env_ok
          (start (fs (snd (main X_ok env_ok (start Map.empty))))))) ''/tmp/snap.out'' = Some ''NEW'' \<and>
   length (content_of (snd (main X_rerun env_ok
          (start (fs (snd (main X_ok env_ok (start Map.empty))))))) ''/tmp/snap.out'') = 3"
proof -
  let ?r1 = "main X_ok env_ok (start Map.empty)"
  let ?r2 = "main X_rerun env_ok (start (fs (snd ?r1)))"
  have ok1: "fst ?r1 = 0"
    by (simp add: example_success)
  have ok2: "fst ?r2 = 0"
    by (simp add: example_rerun)
  have payloads: "fst (raft_stream X_ok) = ''SNAPSHOT''" "fst (raft_stream X_rerun) = ''NEW''"
    "os_Getenv env_ok ''VAULT_SNAPSHOT_PATH'' = ''/tmp/snap.out''"
    by (simp_all add: X_ok_def X_rerun_def env_ok_def os_Getenv_def)
  from rerun_truncates [of ?r1 X_ok env_ok Map.empty ?r2 X_rerun] ok1 ok2
  have "fs (snd ?r1) ''/tmp/snap.out'' = Some ''SNAPSHOT'' \<and>
        fs (snd ?r2) ''/tmp/snap.out'' = Some ''NEW'' \<and>
        length (content_of (snd ?r2) ''/tmp/snap.out'') = 3"
    by (simp add: payloads)
  with ok1 ok2 show ?thesis
    by (simp only: simp_thms)
qed

text \<open>
  C7. In every run, if any close of the staging file returns an error, the process exits
  with status 1, its last two actions are the message that the file failed to close and
  the fatal report of a close error, and nothing is printed about an upload location. A
  run that exits with status 0 made exactly two close calls, both without error, and left
  no handle open.
\<close>

theorem close_failure_is_fatal:
  assumes r: "r = main X env (start files) \<or> r = main2 X env (start files)"
  shows "(EvClose f (Some e) \<in> set (trace (snd r)) \<longrightarrow>
            fst r = 1 \<and>
            (\<exists>c. last (trace (snd r)) = Fatalln (Err (ResourceCloseError c))) \<and>
            last (butlast (trace (snd r))) =
              Println (Str ''Vault raft snapshot file failed to close'') \<and>
            (\<forall>s l. Printf s l \<notin> set (trace (snd r)))) \<and>
         (fst r = 0 \<longrightarrow>
            filter is_close (trace (snd r)) = [EvClose 0 None, EvClose 1 None] \<and>
            (\<forall>h \<in> set (handles (snd r)). \<not> hopen h))"
  using r
  by (cases rule: run_cases) (auto simp add: setup_no_close butlast_append dest: setup_mem)

theorem close_failure_is_fatal_witness:
  "EvClose 1 (Some (ResourceCloseError OsCloseFailure))
     \<in> set (trace (snd (main X_upload_close_failed env_ok (start Map.empty)))) \<and>
   fst (main X_upload_close_failed env_ok (start Map.empty)) = 1 \<and>
   last (trace (snd (main X_upload_close_failed env_ok (start Map.empty)))) =
     Fatalln (Err (ResourceCloseError OsCloseFailure)) \<and>
   EvClose 0 (Some (ResourceCloseError OsCloseFailure))
     \<in> set (trace (snd (main X_snapshot_close_failed env_ok (start Map.empty)))) \<and>
   fst (main X_snapshot_close_failed env_ok (start Map.empty)) = 1 \<and>
   fst (main X_ok env_ok (start Map.empty)) = 0 \<and>
   filter is_close (trace (snd (main X_ok env_ok (start Map.empty)))) =
     [EvClose 0 None, EvClose 1 None]"
proof -
  let ?u = "main X_upload_close_failed env_ok (start Map.empty)"
  let ?s = "main X_snapshot_close_failed env_ok (start Map.empty)"
  let ?k = "main X_ok env_ok (start Map.empty)"
  have u: "EvClose 1 (Some (ResourceCloseError OsCloseFailure)) \<in> set (trace (snd ?u))"
    by (simp add: example_upload_close_failed)
  have s: "EvClose 0 (Some (ResourceCloseError OsCloseFailure)) \<in> set (trace (snd ?s))"
    by (simp add: example_snapshot_close_failed)
  have k: "fst ?k = 0"
    by (simp add: example_success)
  have last_u: "last (trace (snd ?u)) = Fatalln (Err (ResourceCloseError OsCloseFailure))"
    by (simp add: example_upload_close_failed)
  from close_failure_is_fatal [of ?u X_upload_close_failed env_ok Map.empty
         1 "ResourceCloseError OsCloseFailure"] u
  have fu: "fst ?u = 1"
    by blast
  from close_failure_is_fatal [of ?s X_snapshot_close_failed env_ok Map.empty
         0 "ResourceCloseError OsCloseFailure"] s
  have fs: "fst ?s = 1"
    by blast
  from close_failure_is_fatal [of ?k X_ok env_ok Map.empty] k
  have closes: "filter is_close (trace (snd ?k)) = [EvClose 0 None, EvClose 1 None]"
    by blast
  from u fu last_u s fs k closes show ?thesis
    by (simp only: simp_thms)
qed

text \<open>
  C8. In every run in which the upload call is made and the object store refuses it, the
  process exits with status 1, no location is printed, and the last action is the fatal
  report of the upload stage (or of a close error, when closing the file fails as well).
  The upload function of either revision, called on a file with that content and a
  configuration giving that bucket and key, never returns an upload result; when the file
  opens, the session exists and the close succeeds, it returns \<open>UploadTransferError\<close>.
\<close>

theorem upload_failure_is_reported:
  assumes r: "r = main X env (start files) \<or> r = main2 X env (start files)"
    and called: "EvUpload b k body \<in> set (trace (snd r))"
    and failed: "upload_answer X b k body = None"
  shows "fst r = 1 \<and> (\<forall>s l. Printf s l \<notin> set (trace (snd r))) \<and>
         (last (trace (snd r)) = Fatalln (Str ''S3 upload failed'') \<or>
          last (trace (snd r)) = Fatalln (Err (ResourceCloseError OsCloseFailure))) \<and>
         (\<forall>cfg p w. fs w p = Some body \<and> s3Bucket cfg = b \<and>
              s3Prefix cfg @ ''-'' @ filepath_Base p = k \<longrightarrow>
            (\<forall>out. result_of (snapshotS3Upload X cfg p w) \<noteq> Some (Inr out)) \<and>
            (\<forall>out. result_of (snapshotS3Upload2 X cfg p w) \<noteq> Some (Inr out)) \<and>
            (\<not> open_fails X p \<and> \<not> newSession_fails X (s3Region cfg) \<and>
             \<not> close_fails X (length (handles w)) \<longrightarrow>
               result_of (snapshotS3Upload X cfg p w) = Some (Inl UploadTransferError) \<and>
               result_of (snapshotS3Upload2 X cfg p w) = Some (Inl UploadTransferError)))"
proof -
  have run: "fst r = 1 \<and> (\<forall>s l. Printf s l \<notin> set (trace (snd r))) \<and>
         (last (trace (snd r)) = Fatalln (Str ''S3 upload failed'') \<or>
          last (trace (snd r)) = Fatalln (Err (ResourceCloseError OsCloseFailure)))"
    using r called failed
    by (cases rule: run_cases) (auto dest: setup_mem)
  have stage: "(\<forall>out. result_of (snapshotS3Upload_fmt msg X cfg p w) \<noteq> Some (Inr out)) \<and>
            (\<not> open_fails X p \<and> \<not> newSession_fails X (s3Region cfg) \<and>
             \<not> close_fails X (length (handles w)) \<longrightarrow>
               result_of (snapshotS3Upload_fmt msg X cfg p w) = Some (Inl UploadTransferError))"
    if "fs w p = Some body" "s3Bucket cfg = b" "s3Prefix cfg @ ''-'' @ filepath_Base p = k"
    for msg cfg p w
    using that failed
    by (simp add: snapshotS3Upload_fmt_run upload_outcome_def content_of_def)
  show ?thesis
    using run stage unfolding snapshotS3Upload_def snapshotS3Upload2_def by blast
qed

theorem upload_failure_is_reported_witness:
  "EvUpload ''backups'' ''nightly-snap.out'' ''SNAPSHOT''
     \<in> set (trace (snd (main X_upload_failed env_ok (start Map.empty)))) \<and>
   upload_answer X_upload_failed
     ''backups'' ''nightly-snap.out'' ''SNAPSHOT'' = None \<and>
   fst (main X_upload_failed env_ok (start Map.empty)) = 1 \<and>
   last (trace (snd (main X_upload_failed env_ok (start Map.empty)))) =
     Fatalln (Str ''S3 upload failed'')"
proof -
  let ?X = X_upload_failed
  have called: "EvUpload ''backups'' ''nightly-snap.out'' ''SNAPSHOT''
                  \<in> set (trace (snd (main ?X env_ok (start Map.empty))))"
    by (simp add: example_upload_failed)
  have failed: "upload_answer ?X ''backups'' ''nightly-snap.out'' ''SNAPSHOT'' = None"
    by (simp add: X_upload_failed_def)
  from upload_failure_is_reported
         [of "main ?X env_ok (start Map.empty)" ?X env_ok Map.empty
             "''backups''" "''nightly-snap.out''" "''SNAPSHOT''"]
       called failed
  have "fst (main ?X env_ok (start Map.empty)) = 1"
    by blast
  with called failed show ?thesis
    by (simp add: example_upload_failed)
qed

text \<open>
  C9 (as amended: the claim holds of the revision with \<^verbatim>\<open>vaultClientConfig\<close>, not of
  \<^verbatim>\<open>src/main.go\<close>). That revision's \<^verbatim>\<open>main\<close> parses \<^verbatim>\<open>VAULT_SKIP_VERIFY\<close> first. Any
  value that \<^verbatim>\<open>strconv.ParseBool\<close> rejects (anything but its twelve spellings, so also the
  unset variable, which reads as the empty string) ends the run at once with status 1 and
  the fatal message, before any collaborator is called. A parsed value \<open>b\<close> is what the
  TLS configuration of the client is called with, as the first action of the run; when
  that configuration fails, the client function returns \<open>ConnectionConfigError\<close> and the
  run ends with status 1.
\<close>

theorem skip_verify_parsed_and_used:
  fixes cfg :: VaultConfig2
  shows
    "(strconv_ParseBool (os_Getenv env ''VAULT_SKIP_VERIFY'') = None \<longrightarrow>
        main2 X env w =
          (1, w\<lparr>trace := trace w @
                  [Fatalln (Str ''Invalid boolean value for VAULT_SKIP_VERIFY'')]\<rparr>)) \<and>
     (strconv_ParseBool (os_Getenv env ''VAULT_SKIP_VERIFY'') = Some b \<longrightarrow>
        (\<exists>rest. trace (snd (main2 X env w)) = trace w @ EvConfigureTLS b # rest) \<and>
        (configureTLS_fails X b \<longrightarrow>
           main2 X env w =
             (1, w\<lparr>trace := trace w @
                      [EvConfigureTLS b,
                       Println (Str ''Vault TLS configuration failed to initialize''),
                       Println (Err ConnectionConfigError),
                       Fatalln (Str ''Vault client initialization and configuration failed'')]\<rparr>))) \<and>
     (configureTLS_fails X (insecure cfg) \<longrightarrow>
        fst (vaultClientConfig X env cfg w) = Inl ConnectionConfigError) \<and>
     (env ''VAULT_SKIP_VERIFY'' = None \<longrightarrow>
        main2 X env w =
          (1, w\<lparr>trace := trace w @
                  [Fatalln (Str ''Invalid boolean value for VAULT_SKIP_VERIFY'')]\<rparr>)) \<and>
     (strconv_ParseBool (os_Getenv env ''VAULT_SKIP_VERIFY'') = None \<longleftrightarrow>
        os_Getenv env ''VAULT_SKIP_VERIFY'' \<notin>
          set [''1'', ''t'', ''T'', ''TRUE'', ''true'', ''True'',
               ''0'', ''f'', ''F'', ''FALSE'', ''false'', ''False''])"
proof -
  let ?v = "os_Getenv env ''VAULT_SKIP_VERIFY''"
  have a: "main2 X env w =
          (1, w\<lparr>trace := trace w @
                  [Fatalln (Str ''Invalid boolean value for VAULT_SKIP_VERIFY'')]\<rparr>)"
    if "strconv_ParseBool ?v = None"
    using that by (simp add: main2_pipeline)
  have b: "\<exists>rest. trace (snd (main2 X env w)) = trace w @ EvConfigureTLS b # rest"
    if p: "strconv_ParseBool ?v = Some b"
  proof -
    define c where
      "c = \<lparr>vaultAddr = os_Getenv env ''VAULT_ADDR'', token = os_Getenv env ''VAULT_TOKEN'',
            snapshotPath = os_Getenv env ''VAULT_SNAPSHOT_PATH'', insecure = b\<rparr>"
    obtain rest where rest: "client_events X env c = EvConfigureTLS b # rest"
      using client_events_first [of X env c] by (auto simp add: c_def)
    show ?thesis
    proof (cases "client_result X env c")
      case (Inl e)
      with p rest show ?thesis
        by (simp add: main2_pipeline c_def [symmetric])
    next
      case (Inr cl)
      obtain more where
        "trace (snd (pipeline ''Failed to open snapshot file %q: %v'' X
                 \<lparr>s3Bucket = os_Getenv env ''S3_BUCKET'', s3Prefix = os_Getenv env ''S3_PREFIX'',
                  s3Region = os_Getenv env ''AWS_REGION''\<rparr>
                 (os_Getenv env ''VAULT_SNAPSHOT_PATH'')
                 (w\<lparr>trace := trace w @ client_events X env c\<rparr>))) =
         trace (w\<lparr>trace := trace w @ client_events X env c\<rparr>) @ more"
        using pipeline_extends_trace by blast
      with p rest Inr show ?thesis
        by (simp add: main2_pipeline c_def [symmetric])
    qed
  qed
  have c: "main2 X env w =
             (1, w\<lparr>trace := trace w @
                      [EvConfigureTLS b,
                       Println (Str ''Vault TLS configuration failed to initialize''),
                       Println (Err ConnectionConfigError),
                       Fatalln (Str ''Vault client initialization and configuration failed'')]\<rparr>)"
    if "strconv_ParseBool ?v = Some b" "configureTLS_fails X b"
    using that by (simp add: main2_pipeline client_result_def client_events_def)
  have d: "fst (vaultClientConfig X env cfg w) = Inl ConnectionConfigError"
    if "configureTLS_fails X (insecure cfg)"
    using that by (simp add: vaultClientConfig_run client_result_def)
  have e: "main2 X env w =
          (1, w\<lparr>trace := trace w @
                  [Fatalln (Str ''Invalid boolean value for VAULT_SKIP_VERIFY'')]\<rparr>)"
    if "env ''VAULT_SKIP_VERIFY'' = None"
    using that by (simp add: main2_pipeline os_Getenv_def strconv_ParseBool_def)
  show ?thesis
    using a b c d e ParseBool_rejects [of ?v] by blast
qed

theorem skip_verify_parsed_and_used_witness:
  "strconv_ParseBool (os_Getenv (env_ok(''VAULT_SKIP_VERIFY'' \<mapsto> ''maybe'')) ''VAULT_SKIP_VERIFY'')
     = None \<and>
   main2 X_ok (env_ok(''VAULT_SKIP_VERIFY'' \<mapsto> ''maybe'')) (start Map.empty) =
     (1, start Map.empty\<lparr>trace := trace (start Map.empty) @
           [Fatalln (Str ''Invalid boolean value for VAULT_SKIP_VERIFY'')]\<rparr>) \<and>
   strconv_ParseBool (os_Getenv env_ok ''VAULT_SKIP_VERIFY'') = Some False \<and>
   configureTLS_fails X_tls_failed False \<and>
   main2 X_tls_failed env_ok (start Map.empty) =
     (1, start Map.empty\<lparr>trace := trace (start Map.empty) @
           [EvConfigureTLS False,
            Println (Str ''Vault TLS configuration failed to initialize''),
            Println (Err ConnectionConfigError),
            Fatalln (Str ''Vault client initialization and configuration failed'')]\<rparr>) \<and>
   env_unset ''VAULT_SKIP_VERIFY'' = None \<and>
   main2 X_ok env_unset (start Map.empty) =
     (1, start Map.empty\<lparr>trace := trace (start Map.empty) @
           [Fatalln (Str ''Invalid boolean value for VAULT_SKIP_VERIFY'')]\<rparr>)"
proof -
  have unset: "env_unset ''VAULT_SKIP_VERIFY'' = None"
    by (simp add: env_unset_def)
  from skip_verify_parsed_and_used
         [where env = env_unset and X = X_ok and w = "start Map.empty"] unset
  have three: "main2 X_ok env_unset (start Map.empty) =
     (1, start Map.empty\<lparr>trace := trace (start Map.empty) @
           [Fatalln (Str ''Invalid boolean value for VAULT_SKIP_VERIFY'')]\<rparr>)"
    by blast
  have none: "strconv_ParseBool
                (os_Getenv (env_ok(''VAULT_SKIP_VERIFY'' \<mapsto> ''maybe'')) ''VAULT_SKIP_VERIFY'') = None"
    by (simp add: os_Getenv_def strconv_ParseBool_def)
  have some: "strconv_ParseBool (os_Getenv env_ok ''VAULT_SKIP_VERIFY'') = Some False"
    by (simp add: env_ok_def os_Getenv_def strconv_ParseBool_def)
  have tls: "configureTLS_fails X_tls_failed False"
    by (simp add: X_tls_failed_def)
  from skip_verify_parsed_and_used
         [where env = "env_ok(''VAULT_SKIP_VERIFY'' \<mapsto> ''maybe'')" and X = X_ok
            and w = "start Map.empty"] none
  have one: "main2 X_ok (env_ok(''VAULT_SKIP_VERIFY'' \<mapsto> ''maybe'')) (start Map.empty) =
     (1, start Map.empty\<lparr>trace := trace (start Map.empty) @
           [Fatalln (Str ''Invalid boolean value for VAULT_SKIP_VERIFY'')]\<rparr>)"
    by blast
  from skip_verify_parsed_and_used
         [where env = env_ok and X = X_tls_failed and w = "start Map.empty" and b = False]
       some tls
  have two: "main2 X_tls_failed env_ok (start Map.empty) =
     (1, start Map.empty\<lparr>trace := trace (start Map.empty) @
           [EvConfigureTLS False,
            Println (Str ''Vault TLS configuration failed to initialize''),
            Println (Err ConnectionConfigError),
            Fatalln (Str ''Vault client initialization and configuration failed'')]\<rparr>)"
    by blast
  from none one some tls two unset three show ?thesis
    by (simp only: simp_thms)
qed

text \<open>
  The claim as first stated, for every revision's startup, fails at \<^verbatim>\<open>src/main.go\<close>:
  its \<^verbatim>\<open>main\<close> never parses the variable. With \<^verbatim>\<open>VAULT_SKIP_VERIFY\<close> unset, which
  \<^verbatim>\<open>strconv.ParseBool\<close> rejects, and collaborators that all answer well, the run of
  \<^verbatim>\<open>src/main.go\<close> is not fatal: it takes the snapshot, uploads it and ends with status 0,
  while the later revision ends the same run with status 1 at once.
\<close>

theorem skip_verify_parsed_and_used_counterexample:
  "env_unset ''VAULT_SKIP_VERIFY'' = None \<and>
   strconv_ParseBool (os_Getenv env_unset ''VAULT_SKIP_VERIFY'') = None \<and>
   main X_ok env_unset (start Map.empty) =
     (0, \<lparr>fs = [''/tmp/snap.out'' \<mapsto> ''SNAPSHOT''],
          handles = [\<lparr>hname = ''/tmp/snap.out'', hopen = False, hoffset = 8\<rparr>,
                     \<lparr>hname = ''/tmp/snap.out'', hopen = False, hoffset = 0\<rparr>],
          trace = [EvNewClient ''https://vault:8200'', EvSetToken ''s.abcdefghijklmnopqrstuvwx'',
                   EvOpenFile ''/tmp/snap.out'', EvRaftSnapshot 0, EvClose 0 None,
                   EvOpen ''/tmp/snap.out'', EvNewSession ''us-east-1'',
                   EvUpload ''backups'' ''nightly-snap.out'' ''SNAPSHOT'', EvClose 1 None,
                   Printf ''Vault Raft snapshot uploaded to, %s\<newline>''
                     [Str ''s3://backups/nightly-snap.out'']]\<rparr>) \<and>
   main2 X_ok env_unset (start Map.empty) =
     (1, \<lparr>fs = Map.empty, handles = [],
          trace = [Fatalln (Str ''Invalid boolean value for VAULT_SKIP_VERIFY'')]\<rparr>)"
proof -
  have unset: "env_unset ''VAULT_SKIP_VERIFY'' = None"
    by (simp add: env_unset_def)
  have rejected: "strconv_ParseBool (os_Getenv env_unset ''VAULT_SKIP_VERIFY'') = None"
    by (simp add: env_unset_def os_Getenv_def strconv_ParseBool_def)
  note earlier = example_unset_main_go [of Map.empty]
  note later = example_unset_later [of Map.empty]
  from unset rejected earlier later show ?thesis
    by (simp only: simp_thms)
qed



end
